theory Spec2Isabelle
  imports Complex_Main "HOL-Library.Word" "HOL-Library.Sublist"
begin

section \<open>Values shared by the package and the libraries it calls\<close>

text \<open>
  The package \<^verbatim>\<open>mbtiles\<close> (file \<^verbatim>\<open>mbtiles.go\<close>) reads an MBTiles container through
  Go's \<^verbatim>\<open>database/sql\<close>, \<^verbatim>\<open>os\<close>, \<^verbatim>\<open>path/filepath\<close>, \<^verbatim>\<open>strconv\<close>, \<^verbatim>\<open>strings\<close>,
  \<^verbatim>\<open>time\<close> and \<^verbatim>\<open>encoding/json\<close>. The functions of \<^verbatim>\<open>mbtiles.go\<close> are translated
  one by one, under their own names. What a library call answers is part of the input:
  the file system and the driver are a record of answers (\<open>world\<close>), a container is
  the content of its three relations, and \<^verbatim>\<open>strconv.ParseFloat\<close> and
  \<^verbatim>\<open>json.Unmarshal\<close> are function parameters.
\<close>

type_synonym byte = "8 word"
type_synonym bytes = "byte list"

text \<open>
  Every error value the code can hand to its caller. The first group are the errors
  \<^verbatim>\<open>mbtiles.go\<close> creates itself (with the line that creates them); the second group
  are errors of the libraries that the code passes on.
\<close>

datatype error =
    PathDoesNotExist string   \<comment> \<open>line 58: "path does not exist: %q"\<close>
  | JournalFile               \<comment> \<open>line 65: "refusing to open mbtiles file with associated -journal file"\<close>
  | ClosedDatabase            \<comment> \<open>lines 125 and 143: "cannot read tile from closed mbtiles database"\<close>
  | MetadataItem string       \<comment> \<open>lines 171 and 176: "cannot read metadata item %s: %v"\<close>
  | JSONMetadata              \<comment> \<open>line 181: "unable to parse JSON metadata item: %v"\<close>
  | MissingTables             \<comment> \<open>line 251: "missing one or more required tables: tiles, metadata"\<close>
  | ParseFloatsError string   \<comment> \<open>line 320: "could not parse %q to floats: %v"\<close>
  | ErrNotExist               \<comment> \<open>\<^verbatim>\<open>os.ErrNotExist\<close>\<close>
  | OtherError string         \<comment> \<open>any other error of \<^verbatim>\<open>os\<close>, \<^verbatim>\<open>filepath\<close> or a detection helper\<close>
  | ErrNoRows                 \<comment> \<open>\<^verbatim>\<open>sql.ErrNoRows\<close>\<close>
  | StmtClosed                \<comment> \<open>\<^verbatim>\<open>database/sql\<close>: "sql: statement is closed"\<close>
  | DBClosed                  \<comment> \<open>\<^verbatim>\<open>database/sql\<close>: "sql: database is closed"\<close>
  | DriverError string        \<comment> \<open>the driver cannot read the file, e.g. "file is not a database"\<close>
  | NoSuchTable string        \<comment> \<open>SQLite: "no such table: %s"\<close>
  | ScanNull                  \<comment> \<open>\<^verbatim>\<open>database/sql\<close>: "converting NULL to ... is unsupported"\<close>
  | ErrSyntax                 \<comment> \<open>\<^verbatim>\<open>strconv.ErrSyntax\<close>\<close>
  | ErrRange                  \<comment> \<open>\<^verbatim>\<open>strconv.ErrRange\<close>\<close>

text \<open>A run-time panic ends the call without a return value.\<close>

datatype panic =
    NilPointerDereference     \<comment> \<open>a field read through a nil \<^verbatim>\<open>*MBtiles\<close>\<close>
  | NilMapAssignment          \<comment> \<open>"assignment to entry in nil map"\<close>

datatype 'a outcome = Returns 'a | Panics panic

section \<open>The container: what the SQLite driver reads\<close>

text \<open>
  A row of \<^verbatim>\<open>sqlite_master\<close> is a schema object: a table, a view, an index or a
  trigger, with its name. Rows of \<^verbatim>\<open>tiles\<close> carry the MBTiles columns with their
  declared types, every cell possibly NULL (\<open>None\<close>); integer cells are 64-bit values.
  A row of \<^verbatim>\<open>metadata\<close> is a name cell and a value cell, text or NULL.
\<close>

record schema_object =
  obj_type :: string
  obj_name :: string

record tiles_row =
  zoom_level :: "int option"
  tile_column :: "int option"
  tile_row :: "int option"
  tile_data :: "bytes option"

type_synonym cell = "string option"

record database =
  sqlite_master :: "schema_object list"
  tiles_table :: "tiles_row list"
  metadata_table :: "(cell \<times> cell) list"

text \<open>
  What the driver finds at a path: a file it cannot read as a database (every statement
  then fails with the driver's error), or a database.
\<close>

datatype dbfile = Unreadable string | Readable database

text \<open>
  \<^verbatim>\<open>*sql.DB\<close> and \<^verbatim>\<open>*sql.Stmt\<close>: the object's closed flag and the file it reads.
  Closing is idempotent in \<^verbatim>\<open>database/sql\<close>; the code ignores what it returns.
\<close>

record sqlDB =
  db_closed :: bool
  db_file :: dbfile

record sqlStmt =
  stmt_closed :: bool
  stmt_file :: dbfile

definition DB_Close :: "sqlDB \<Rightarrow> sqlDB" where
  "DB_Close con = con\<lparr>db_closed := True\<rparr>"

definition Stmt_Close :: "sqlStmt \<Rightarrow> sqlStmt" where
  "Stmt_Close st = st\<lparr>stmt_closed := True\<rparr>"

text \<open>
  A \<^verbatim>\<open>FROM tiles\<close> or \<^verbatim>\<open>FROM metadata\<close> clause needs a table or a view of that name.
  SQLite resolves the name without regard to the case of the ASCII letters: a table
  created as \<^verbatim>\<open>Tiles\<close> answers \<^verbatim>\<open>FROM tiles\<close>.
\<close>

definition ascii_lower :: "char \<Rightarrow> char" where
  \<comment> \<open>\<open>A\<close> to \<open>Z\<close> are the codes 65 to 90; setting the bit of value 32 adds 32\<close>
  "ascii_lower c =
     (if 65 \<le> (of_char c :: nat) \<and> (of_char c :: nat) \<le> 90
      then (case c of Char b0 b1 b2 b3 b4 b5 b6 b7 \<Rightarrow> Char b0 b1 b2 b3 b4 True b6 b7)
      else c)"

definition same_name :: "string \<Rightarrow> string \<Rightarrow> bool" where
  "same_name a b = (map ascii_lower a = map ascii_lower b)"

definition relation_exists :: "database \<Rightarrow> string \<Rightarrow> bool" where
  "relation_exists d n =
     list_ex (\<lambda>ob. (obj_type ob = ''table'' \<or> obj_type ob = ''view'') \<and> same_name (obj_name ob) n)
       (sqlite_master d)"

text \<open>
  Running a statement on a connection: a closed \<^verbatim>\<open>*sql.DB\<close> answers
  "sql: database is closed", an unreadable file the driver's error, and a database
  what the statement computes from it.
\<close>

definition on_database :: "sqlDB \<Rightarrow> (database \<Rightarrow> error + 'a) \<Rightarrow> error + 'a" where
  "on_database con q =
     (if db_closed con then Inl DBClosed
      else case db_file con of
             Unreadable msg \<Rightarrow> Inl (DriverError msg)
           | Readable d \<Rightarrow> q d)"

text \<open>
  Line 245: \<^verbatim>\<open>SELECT count(*) FROM sqlite_master WHERE name in ('tiles', 'metadata')\<close>,
  scanned into an \<^verbatim>\<open>int\<close>. The comparison of the \<^verbatim>\<open>name\<close> column with the two
  literals is that of text values, byte for byte.
\<close>

definition count_required :: "sqlDB \<Rightarrow> error + int" where
  "count_required con =
     on_database con (\<lambda>d. Inr (int (length
        (filter (\<lambda>ob. obj_name ob = ''tiles'' \<or> obj_name ob = ''metadata'') (sqlite_master d)))))"

text \<open>
  Scanning a \<^verbatim>\<open>tile_data\<close> cell into a \<^verbatim>\<open>[]byte\<close>: the slice is nil (\<open>None\<close>) for a
  NULL cell and, with the driver that line 15 imports (\<^verbatim>\<open>modernc.org/sqlite\<close>), also
  for a blob of length zero; otherwise it holds the bytes of the blob. \<open>content\<close>
  is the bytes of a slice; the nil slice has none.
\<close>

definition scan_blob :: "bytes option \<Rightarrow> bytes option" where
  "scan_blob blob =
     (case blob of
        None \<Rightarrow> None
      | Some b \<Rightarrow> if b = [] then None else Some b)"

definition content :: "bytes option \<Rightarrow> bytes" where
  "content data = (case data of None \<Rightarrow> [] | Some b \<Rightarrow> b)"

text \<open>
  Lines 261 and 287: \<^verbatim>\<open>select tile_data from tiles limit 1\<close>, scanned into a
  \<^verbatim>\<open>[]byte\<close>. No row is \<^verbatim>\<open>sql.ErrNoRows\<close>.
\<close>

definition first_tile :: "sqlDB \<Rightarrow> error + bytes" where
  "first_tile con =
     on_database con (\<lambda>d.
       if \<not> relation_exists d ''tiles'' then Inl (NoSuchTable ''tiles'')
       else case tiles_table d of
              [] \<Rightarrow> Inl ErrNoRows
            | r # _ \<Rightarrow> Inr (content (scan_blob (tile_data r))))"

text \<open>
  Lines 98 and 103: \<^verbatim>\<open>con.Prepare\<close> of the point lookup
  \<^verbatim>\<open>select tile_data from tiles where zoom_level = ? and tile_column = ? and tile_row = ?\<close>.
\<close>

definition Prepare :: "sqlDB \<Rightarrow> error + sqlStmt" where
  "Prepare con =
     on_database con (\<lambda>d.
       if \<not> relation_exists d ''tiles'' then Inl (NoSuchTable ''tiles'')
       else Inr \<lparr>stmt_closed = False, stmt_file = Readable d\<rparr>)"

text \<open>
  Line 128: \<^verbatim>\<open>db.tileStmt.QueryRow(z, x, y).Scan(data)\<close>. The answer is the first row
  whose three coordinates equal the arguments (a NULL coordinate equals nothing). The
  payload is scanned into \<^verbatim>\<open>*data\<close>.
\<close>

definition has_coordinates :: "int \<Rightarrow> int \<Rightarrow> int \<Rightarrow> tiles_row \<Rightarrow> bool" where
  "has_coordinates z x y r =
     (zoom_level r = Some z \<and> tile_column r = Some x \<and> tile_row r = Some y)"

definition lookup_tile :: "sqlStmt \<Rightarrow> int \<Rightarrow> int \<Rightarrow> int \<Rightarrow> error + bytes option" where
  "lookup_tile st z x y =
     (if stmt_closed st then Inl StmtClosed
      else case stmt_file st of
             Unreadable msg \<Rightarrow> Inl (DriverError msg)
           | Readable d \<Rightarrow>
               (if \<not> relation_exists d ''tiles'' then Inl (NoSuchTable ''tiles'')
                else case find (has_coordinates z x y) (tiles_table d) of
                       None \<Rightarrow> Inl ErrNoRows
                     | Some r \<Rightarrow> Inr (scan_blob (tile_data r))))"

text \<open>
  Line 158: \<^verbatim>\<open>select * from metadata where value is not ''\<close>. \<^verbatim>\<open>IS NOT\<close> treats NULL
  as a value of its own, so a row with a NULL value passes the filter.
\<close>

definition metadata_rows :: "sqlDB \<Rightarrow> error + (cell \<times> cell) list" where
  "metadata_rows con =
     on_database con (\<lambda>d.
       if \<not> relation_exists d ''metadata'' then Inl (NoSuchTable ''metadata'')
       else Inr (filter (\<lambda>(k, v). v \<noteq> Some []) (metadata_table d)))"

text \<open>
  Line 193: \<^verbatim>\<open>select min(zoom_level), max(zoom_level) from tiles\<close>, scanned into two
  \<^verbatim>\<open>int\<close>s. The aggregates skip NULL cells and are NULL when nothing is left, and
  scanning NULL into an \<^verbatim>\<open>int\<close> fails.
\<close>

definition zoom_levels :: "database \<Rightarrow> int list" where
  "zoom_levels d = concat (map (\<lambda>r. case zoom_level r of None \<Rightarrow> [] | Some z \<Rightarrow> [z]) (tiles_table d))"

definition zoom_range :: "sqlDB \<Rightarrow> error + int \<times> int" where
  "zoom_range con =
     on_database con (\<lambda>d.
       if \<not> relation_exists d ''tiles'' then Inl (NoSuchTable ''tiles'')
       else case zoom_levels d of
              [] \<Rightarrow> Inl ScanNull
            | z # zs \<Rightarrow> Inr (fold min zs z, fold max zs z))"

text \<open>
  Line 165: \<^verbatim>\<open>rows.Scan(&key, &value)\<close>. \<^verbatim>\<open>database/sql\<close> converts the columns from
  left to right into the destinations and stops at the first that fails: a NULL cell
  does not convert to a \<^verbatim>\<open>string\<close>. The result is the new content of \<^verbatim>\<open>key\<close> and
  \<^verbatim>\<open>value\<close>, and the error.
\<close>

definition Scan_row :: "cell \<times> cell \<Rightarrow> string \<times> string \<Rightarrow> (string \<times> string) \<times> error option" where
  "Scan_row r kv =
     (case fst r of
        None \<Rightarrow> (kv, Some ScanNull)
      | Some k \<Rightarrow>
          (case snd r of
             None \<Rightarrow> ((k, snd kv), Some ScanNull)
           | Some v \<Rightarrow> ((k, v), None)))"

section \<open>The file system, the clock and the driver registry\<close>

text \<open>
  Times are nanoseconds since Go's zero time; \<^verbatim>\<open>time.Second\<close> is
  \<open>1000000000\<close> of them. \<^verbatim>\<open>Time.Round(d)\<close> rounds to the nearest multiple of
  \<open>d\<close> since the zero time, halfway values up, and returns its argument for
  \<open>d \<le> 0\<close>.
\<close>

definition Second :: int where
  "Second = 1000000000"

definition Round :: "int \<Rightarrow> int \<Rightarrow> int" where
  "Round t d =
     (if d \<le> 0 then t
      else let r = t mod d in if r + r < d then t - r else t + (d - r))"

definition Truncate :: "int \<Rightarrow> int \<Rightarrow> int" where
  "Truncate t d = (if d \<le> 0 then t else t - t mod d)"

record fileinfo =
  ModTime :: int

text \<open>
  \<open>os_Stat\<close> is what \<^verbatim>\<open>os.Stat\<close> answers for a path, \<open>sql_Open\<close> what
  \<^verbatim>\<open>sql.Open("sqlite", path)\<close> answers (the file the new \<^verbatim>\<open>*sql.DB\<close> reads, or an
  error), and \<open>filepath_Walk\<close> the calls \<^verbatim>\<open>filepath.Walk\<close> makes to its callback
  for a root, in order, as long as the callback returns nil: the path visited and the
  error handed in with it.
\<close>

record world =
  os_Stat :: "string \<Rightarrow> error + fileinfo"
  sql_Open :: "string \<Rightarrow> error + dbfile"
  filepath_Walk :: "string \<Rightarrow> (string \<times> error option) list"

text \<open>
  \<^verbatim>\<open>filepath.Ext\<close>: the suffix that starts at the last dot of the last path element,
  empty when that element has no dot. The scan runs from the end of the path and stops
  at a separator (\<open>/\<close>).
\<close>

fun Ext_scan :: "string \<Rightarrow> string \<Rightarrow> string" where
  "Ext_scan [] seen = []"
| "Ext_scan (c # front) seen =
     (if c = CHR ''/'' then []
      else if c = CHR ''.'' then c # seen
      else Ext_scan front (c # seen))"

definition Ext :: "string \<Rightarrow> string" where
  "Ext path = Ext_scan (rev path) []"

section \<open>Strings and numbers of the standard library\<close>

text \<open>
  \<^verbatim>\<open>strings.Split(s, sep)\<close> for a separator of one byte: the pieces between the
  separators, in order; a string without separator is its only piece, the empty one
  included.
\<close>

fun Split :: "string \<Rightarrow> char \<Rightarrow> string list" where
  "Split [] sep = [[]]"
| "Split (c # s) sep =
     (if c = sep then [] # Split s sep
      else case Split s sep of
             [] \<Rightarrow> [[c]]
           | piece # pieces \<Rightarrow> (c # piece) # pieces)"

text \<open>
  \<^verbatim>\<open>strings.TrimSpace\<close> removes the leading and the trailing white space, as
  \<^verbatim>\<open>unicode.IsSpace\<close> defines it. A Go string is a sequence of bytes, so the white
  space code points are listed in UTF-8: the six of ASCII, U+0085, U+00A0, U+1680,
  U+2000 to U+200A, U+2028, U+2029, U+202F, U+205F and U+3000.
\<close>

definition space_runes :: "string list" where
  "space_runes =
     [[CHR 0x09], [CHR 0x0A], [CHR 0x0B], [CHR 0x0C], [CHR 0x0D], [CHR 0x20],
      [CHR 0xC2, CHR 0x85], [CHR 0xC2, CHR 0xA0],
      [CHR 0xE1, CHR 0x9A, CHR 0x80],
      [CHR 0xE2, CHR 0x80, CHR 0x80], [CHR 0xE2, CHR 0x80, CHR 0x81],
      [CHR 0xE2, CHR 0x80, CHR 0x82], [CHR 0xE2, CHR 0x80, CHR 0x83],
      [CHR 0xE2, CHR 0x80, CHR 0x84], [CHR 0xE2, CHR 0x80, CHR 0x85],
      [CHR 0xE2, CHR 0x80, CHR 0x86], [CHR 0xE2, CHR 0x80, CHR 0x87],
      [CHR 0xE2, CHR 0x80, CHR 0x88], [CHR 0xE2, CHR 0x80, CHR 0x89],
      [CHR 0xE2, CHR 0x80, CHR 0x8A],
      [CHR 0xE2, CHR 0x80, CHR 0xA8], [CHR 0xE2, CHR 0x80, CHR 0xA9],
      [CHR 0xE2, CHR 0x80, CHR 0xAF], [CHR 0xE2, CHR 0x81, CHR 0x9F],
      [CHR 0xE3, CHR 0x80, CHR 0x80]]"

text \<open>
  The number of bytes of the rune of \<open>runes\<close> that \<open>s\<close> starts with, 0 when it
  starts with none; and the string left when such runes are removed from its start
  (\<open>n\<close> bytes of the current rune are still to be dropped).
\<close>

definition rune_width :: "string list \<Rightarrow> string \<Rightarrow> nat" where
  "rune_width runes s =
     (case find (\<lambda>w. prefix w s) runes of None \<Rightarrow> 0 | Some w \<Rightarrow> length w)"

fun skip_runes :: "string list \<Rightarrow> nat \<Rightarrow> string \<Rightarrow> string" where
  "skip_runes runes n [] = []"
| "skip_runes runes (Suc n) (c # s) = skip_runes runes n s"
| "skip_runes runes 0 (c # s) =
     (case rune_width runes (c # s) of
        0 \<Rightarrow> c # s
      | Suc n \<Rightarrow> skip_runes runes n s)"

definition TrimSpace :: "string \<Rightarrow> string" where
  "TrimSpace s =
     rev (skip_runes (map rev space_runes) 0 (rev (skip_runes space_runes 0 s)))"

text \<open>
  \<^verbatim>\<open>strconv.Atoi\<close> (64-bit \<^verbatim>\<open>int\<close>): an optional sign and at least one decimal
  digit, nothing else; a value outside the 64-bit range is \<^verbatim>\<open>ErrRange\<close>.
\<close>

fun decimal :: "string \<Rightarrow> int \<Rightarrow> int option" where
  "decimal [] n = Some n"
| "decimal (ch # s) n =
     (if 48 \<le> (of_char ch :: int) \<and> (of_char ch :: int) \<le> 57
      then decimal s (n * 10 + (of_char ch - 48))
      else None)"

definition Atoi :: "string \<Rightarrow> error + int" where
  "Atoi s0 =
     (case s0 of
        [] \<Rightarrow> Inl ErrSyntax
      | c # rest \<Rightarrow>
          (let s = (if c = CHR ''-'' \<or> c = CHR ''+'' then rest else s0) in
           if s = [] then Inl ErrSyntax
           else case decimal s 0 of
                  None \<Rightarrow> Inl ErrSyntax
                | Some n \<Rightarrow>
                    (let v = (if c = CHR ''-'' then - n else n) in
                     if v < - 9223372036854775808 \<or> 9223372036854775807 < v
                     then Inl ErrRange else Inr v)))"

section \<open>Tile formats\<close>

text \<open>
  \<^verbatim>\<open>mbtiles.go\<close> names \<^verbatim>\<open>UNKNOWN\<close>, \<^verbatim>\<open>GZIP\<close> and \<^verbatim>\<open>PBF\<close>; the raster formats are
  those of the format enumeration of the specification.
\<close>

datatype TileFormat = UNKNOWN | GZIP | PNG | JPG | PBF | WEBP

text \<open>
  Modelled from the spec: \<^verbatim>\<open>detectTileFormat\<close> is called by \<^verbatim>\<open>mbtiles.go\<close> but
  declared in another file of the package. The specification (section 4.3, steps 1 and
  3): the leading bytes are compared with the magic signature of each supported format
  in a fixed order, the first match wins, and no match is a failure. The signatures are
  those of gzip, PNG, JPEG and RIFF (WebP). Step 2, the reclassification of gzip, is in
  \<^verbatim>\<open>mbtiles.go\<close> and is not repeated here.
\<close>

definition signatures :: "(TileFormat \<times> bytes) list" where
  "signatures =
     [(GZIP, [0x1F, 0x8B]),
      (PNG, [0x89, 0x50, 0x4E, 0x47, 0x0D, 0x0A, 0x1A, 0x0A]),
      (JPG, [0xFF, 0xD8, 0xFF]),
      (WEBP, [0x52, 0x49, 0x46, 0x46])]"

definition detectTileFormat :: "bytes \<Rightarrow> TileFormat \<times> error option" where
  "detectTileFormat tileData =
     (case find (\<lambda>(f, magic). prefix magic tileData) signatures of
        Some (f, magic) \<Rightarrow> (f, None)
      | None \<Rightarrow> (UNKNOWN, Some (OtherError ''could not detect tile format'')))"

text \<open>
  \<^verbatim>\<open>detectTileSize\<close> is declared outside \<^verbatim>\<open>mbtiles.go\<close> as well. Nothing below depends
  on what it computes, so it is a parameter (\<open>dts\<close>) of the functions that call it, as
  is the format detection (\<open>dtf\<close>). The detector \<open>no_size\<close> reports size 0 for
  every payload; the examples use it.
\<close>

type_synonym format_detector = "bytes \<Rightarrow> TileFormat \<times> error option"
type_synonym size_detector = "TileFormat \<Rightarrow> bytes \<Rightarrow> 32 word \<times> error option"

definition no_size :: size_detector where
  "no_size f tileData = (0, None)"

section \<open>The handle and its operations\<close>

text \<open>
  The struct \<^verbatim>\<open>MBtiles\<close> (lines 19 to 26). A \<^verbatim>\<open>*MBtiles\<close> is \<open>None\<close> when nil. The two
  pointer fields are \<open>None\<close> when nil; the objects they point to carry their own
  closed flag.
\<close>

record MBtiles =
  filename :: string
  pool :: "sqlDB option"
  tileStmt :: "sqlStmt option"
  format :: TileFormat
  timestamp :: int
  tilesize :: "32 word"

text \<open>\<^verbatim>\<open>FindMBtiles\<close> (lines 29 to 49): the callback, run over the visits of the walk.\<close>

fun walk :: "world \<Rightarrow> (string \<times> error option) list \<Rightarrow> string list \<Rightarrow> string list \<times> error option" where
  "walk w [] filenames = (filenames, None)"
| "walk w ((p, err) # visits) filenames =
     (case err of
        Some e \<Rightarrow> ([], Some e)
      | None \<Rightarrow>
          (case os_Stat w (p @ ''-journal'') of
             Inr info \<Rightarrow> walk w visits filenames
           | Inl e \<Rightarrow>
               if Ext p = ''.mbtiles'' then walk w visits (filenames @ [p])
               else walk w visits filenames))"

definition FindMBtiles :: "world \<Rightarrow> string \<Rightarrow> string list \<times> error option" where
  "FindMBtiles w path = walk w (filepath_Walk w path) []"

text \<open>\<^verbatim>\<open>validateRequiredTables\<close> (lines 243 to 255).\<close>

definition validateRequiredTables :: "sqlDB \<Rightarrow> error option" where
  "validateRequiredTables con =
     (case count_required con of
        Inl err \<Rightarrow> Some err
      | Inr tableCount \<Rightarrow> if tableCount < 2 then Some MissingTables else None)"

text \<open>\<^verbatim>\<open>getTileFormat\<close> (lines 259 to 278).\<close>

definition getTileFormat :: "format_detector \<Rightarrow> sqlDB \<Rightarrow> TileFormat \<times> error option" where
  "getTileFormat dtf con =
     (case first_tile con of
        Inl err \<Rightarrow> (UNKNOWN, Some err)
      | Inr magicWord \<Rightarrow>
          (case dtf magicWord of
             (fmt, Some err) \<Rightarrow> (UNKNOWN, Some err)
           | (fmt, None) \<Rightarrow> (if fmt = GZIP then PBF else fmt, None)))"

text \<open>\<^verbatim>\<open>getTileFormatAndSize\<close> (lines 283 to 309).\<close>

definition getTileFormatAndSize ::
    "format_detector \<Rightarrow> size_detector \<Rightarrow> sqlDB \<Rightarrow> TileFormat \<times> 32 word \<times> error option" where
  "getTileFormatAndSize dtf dts con =
     (case first_tile con of
        Inl err \<Rightarrow> (UNKNOWN, 0, Some err)
      | Inr tileData \<Rightarrow>
          (case dtf tileData of
             (fmt, Some err) \<Rightarrow> (UNKNOWN, 0, Some err)
           | (fmt, None) \<Rightarrow>
               (let fmt' = (if fmt = GZIP then PBF else fmt) in
                case dts fmt' tileData of
                  (tsize, Some err) \<Rightarrow> (fmt', tsize, Some err)
                | (tsize, None) \<Rightarrow> (fmt', tsize, None))))"

text \<open>
  \<^verbatim>\<open>Open\<close> (lines 53 to 109). \<^verbatim>\<open>getConnection\<close> (line 231) returns \<^verbatim>\<open>db.pool\<close> and a
  nil error, and \<^verbatim>\<open>closeConnection\<close> does nothing, so \<open>con\<close> is the pool. The
  statement is prepared twice (lines 98 and 103); the second one stays in the handle.
  On every failure the handle returned is nil.
\<close>

definition Open ::
    "world \<Rightarrow> format_detector \<Rightarrow> size_detector \<Rightarrow> string \<Rightarrow> MBtiles option \<times> error option" where
  "Open w dtf dts path =
     (case os_Stat w path of
        Inl err \<Rightarrow>
          if err = ErrNotExist then (None, Some (PathDoesNotExist path)) else (None, Some err)
      | Inr stat \<Rightarrow>
          (case os_Stat w (path @ ''-journal'') of
             Inr journal \<Rightarrow> (None, Some JournalFile)
           | Inl absent \<Rightarrow>
               (case sql_Open w path of
                  Inl err \<Rightarrow> (None, Some err)
                | Inr file \<Rightarrow>
                    (let con = \<lparr>db_closed = False, db_file = file\<rparr>;
                         db = \<lparr>filename = path, pool = Some con, tileStmt = None,
                               format = UNKNOWN, timestamp = Round (ModTime stat) Second,
                               tilesize = 0\<rparr>
                     in case validateRequiredTables con of
                          Some err \<Rightarrow> (None, Some err)
                        | None \<Rightarrow>
                            (case getTileFormatAndSize dtf dts con of
                               (fmt, tsize, Some err) \<Rightarrow> (None, Some err)
                             | (fmt, tsize, None) \<Rightarrow>
                                 (case Prepare con of
                                    Inl err \<Rightarrow> (None, Some err)
                                  | Inr first \<Rightarrow>
                                      (case Prepare con of
                                         Inl err \<Rightarrow> (None, Some err)
                                       | Inr stmt \<Rightarrow>
                                           (Some (db\<lparr>format := fmt, tilesize := tsize,
                                                      tileStmt := Some stmt\<rparr>), None))))))))"

text \<open>
  \<^verbatim>\<open>Close\<close> (lines 112 to 119). It reads \<^verbatim>\<open>db.tileStmt\<close> without a nil check of
  \<^verbatim>\<open>db\<close>, closes the two objects and leaves the fields of the handle as they are. The
  result is the handle as the caller finds it afterwards.
\<close>

definition Close :: "MBtiles option \<Rightarrow> MBtiles option outcome" where
  "Close db =
     (case db of
        None \<Rightarrow> Panics NilPointerDereference
      | Some h \<Rightarrow>
          Returns (Some (h\<lparr>tileStmt := map_option Stmt_Close (tileStmt h),
                             pool := map_option DB_Close (pool h)\<rparr>)))"

text \<open>
  \<^verbatim>\<open>ReadTile\<close> (lines 123 to 137). \<open>data\<close> is the slice \<^verbatim>\<open>*data\<close> before the call
  (the pointer itself is not nil); the result is the slice after the call and the
  error.
\<close>

definition ReadTile ::
    "MBtiles option \<Rightarrow> int \<Rightarrow> int \<Rightarrow> int \<Rightarrow> bytes option \<Rightarrow> bytes option \<times> error option" where
  "ReadTile db z x y data =
     (case db of
        None \<Rightarrow> (data, Some ClosedDatabase)
      | Some h \<Rightarrow>
          (case tileStmt h of
             None \<Rightarrow> (data, Some ClosedDatabase)
           | Some stmt \<Rightarrow>
               (case lookup_tile stmt z x y of
                  Inl err \<Rightarrow> if err = ErrNoRows then (None, None) else (data, Some err)
                | Inr payload \<Rightarrow> (payload, None))))"

text \<open>The accessors (lines 203 to 221) read a field through the pointer.\<close>

definition GetFilename :: "MBtiles option \<Rightarrow> string outcome" where
  "GetFilename db = (case db of None \<Rightarrow> Panics NilPointerDereference | Some h \<Rightarrow> Returns (filename h))"

definition GetTileFormat :: "MBtiles option \<Rightarrow> TileFormat outcome" where
  "GetTileFormat db = (case db of None \<Rightarrow> Panics NilPointerDereference | Some h \<Rightarrow> Returns (format h))"

definition GetTileSize :: "MBtiles option \<Rightarrow> 32 word outcome" where
  "GetTileSize db = (case db of None \<Rightarrow> Panics NilPointerDereference | Some h \<Rightarrow> Returns (tilesize h))"

definition GetTimestamp :: "MBtiles option \<Rightarrow> int outcome" where
  "GetTimestamp db = (case db of None \<Rightarrow> Panics NilPointerDereference | Some h \<Rightarrow> Returns (timestamp h))"

section \<open>Metadata\<close>

text \<open>
  \<^verbatim>\<open>parseFloats\<close> (lines 314 to 325). \<open>ParseFloat\<close> stands for
  \<^verbatim>\<open>strconv.ParseFloat(_, 64)\<close>: what it answers for a field, with \<open>'f\<close> the
  \<^verbatim>\<open>float64\<close> values. The result is the slice \<^verbatim>\<open>out\<close> and the error.
\<close>

fun parseFloats_loop ::
    "(string \<Rightarrow> error + 'f) \<Rightarrow> string \<Rightarrow> string list \<Rightarrow> 'f list \<Rightarrow> 'f list \<times> error option" where
  "parseFloats_loop ParseFloat str [] out = (out, None)"
| "parseFloats_loop ParseFloat str (v # split) out =
     (case ParseFloat (TrimSpace v) of
        Inl err \<Rightarrow> (out, Some (ParseFloatsError str))
      | Inr val \<Rightarrow> parseFloats_loop ParseFloat str split (out @ [val]))"

definition parseFloats :: "(string \<Rightarrow> error + 'f) \<Rightarrow> string \<Rightarrow> 'f list \<times> error option" where
  "parseFloats ParseFloat str = parseFloats_loop ParseFloat str (Split str CHR '','') []"

text \<open>
  The values of the map \<^verbatim>\<open>map[string]interface{}\<close> that \<^verbatim>\<open>ReadMetadata\<close> builds: an
  \<^verbatim>\<open>int\<close>, a \<^verbatim>\<open>[]float64\<close>, a \<^verbatim>\<open>string\<close>, or a value that \<^verbatim>\<open>json.Unmarshal\<close> stored
  (\<open>'j\<close>). The map variable itself is \<open>None\<close> when it is the nil map.
\<close>

datatype ('f, 'j) item = IntItem int | FloatsItem "'f list" | StringItem string | JSONItem 'j

type_synonym ('f, 'j) metadata_map = "(string \<rightharpoonup> ('f, 'j) item) option"

text \<open>
  What \<^verbatim>\<open>json.Unmarshal([]byte(value), &metadata)\<close> does with a text: it fails and
  stores nothing (a syntax error, or a document that is neither an object nor
  \<^verbatim>\<open>null\<close>); for \<^verbatim>\<open>null\<close> it sets the map to nil; for an object it stores the members
  in the map in the order of the text, making a map when there is none.
\<close>

datatype 'j document = JSONInvalid | JSONNull | JSONObject "(string \<times> 'j) list"

definition store_fields ::
    "(string \<times> 'j) list \<Rightarrow> ('f, 'j) metadata_map \<Rightarrow> (string \<rightharpoonup> ('f, 'j) item)" where
  "store_fields members metadata =
     fold (\<lambda>(k, v) m. m(k \<mapsto> JSONItem v)) members
       (case metadata of None \<Rightarrow> Map.empty | Some m \<Rightarrow> m)"

text \<open>
  The body of the \<^verbatim>\<open>switch\<close> (lines 167 to 185) for one \<^verbatim>\<open>key\<close> and \<^verbatim>\<open>value\<close>. An
  assignment \<^verbatim>\<open>metadata[key] = ...\<close> panics when the map is nil; in
  \<^verbatim>\<open>metadata[key], err = f(value)\<close> the entry is assigned before \<^verbatim>\<open>err\<close> is looked
  at. The result is the map for the next row, or the error returned.
\<close>

definition decode_item ::
    "(string \<Rightarrow> error + 'f) \<Rightarrow> (string \<Rightarrow> 'j document) \<Rightarrow> string \<Rightarrow> string \<Rightarrow>
     ('f, 'j) metadata_map \<Rightarrow> (error + ('f, 'j) metadata_map) outcome" where
  "decode_item ParseFloat Unmarshal key val metadata =
     (if key = ''maxzoom'' \<or> key = ''minzoom'' then
        (case metadata of
           None \<Rightarrow> Panics NilMapAssignment
         | Some m \<Rightarrow>
             (case Atoi val of
                Inl err \<Rightarrow> Returns (Inl (MetadataItem key))
              | Inr n \<Rightarrow> Returns (Inr (Some (m(key \<mapsto> IntItem n))))))
      else if key = ''bounds'' \<or> key = ''center'' then
        (case metadata of
           None \<Rightarrow> Panics NilMapAssignment
         | Some m \<Rightarrow>
             (case parseFloats ParseFloat val of
                (out, Some err) \<Rightarrow> Returns (Inl (MetadataItem key))
              | (out, None) \<Rightarrow> Returns (Inr (Some (m(key \<mapsto> FloatsItem out))))))
      else if key = ''json'' then
        (case Unmarshal val of
           JSONInvalid \<Rightarrow> Returns (Inl JSONMetadata)
         | JSONNull \<Rightarrow> Returns (Inr None)
         | JSONObject members \<Rightarrow> Returns (Inr (Some (store_fields members metadata))))
      else
        (case metadata of
           None \<Rightarrow> Panics NilMapAssignment
         | Some m \<Rightarrow> Returns (Inr (Some (m(key \<mapsto> StringItem val))))))"

text \<open>
  The loop over the rows (lines 164 to 186). \<open>kv\<close> is the content of the variables
  \<^verbatim>\<open>key\<close> and \<^verbatim>\<open>value\<close>, which are declared outside the loop; the error of
  \<^verbatim>\<open>rows.Scan\<close> is dropped (line 165).
\<close>

fun decode_rows ::
    "(string \<Rightarrow> error + 'f) \<Rightarrow> (string \<Rightarrow> 'j document) \<Rightarrow> (cell \<times> cell) list \<Rightarrow>
     string \<times> string \<Rightarrow> ('f, 'j) metadata_map \<Rightarrow> (error + ('f, 'j) metadata_map) outcome" where
  "decode_rows ParseFloat Unmarshal [] kv metadata = Returns (Inr metadata)"
| "decode_rows ParseFloat Unmarshal (r # rows) kv metadata =
     (case decode_item ParseFloat Unmarshal (fst (fst (Scan_row r kv)))
             (snd (fst (Scan_row r kv))) metadata of
        Returns (Inr metadata') \<Rightarrow>
          decode_rows ParseFloat Unmarshal rows (fst (Scan_row r kv)) metadata'
      | Returns (Inl err) \<Rightarrow> Returns (Inl err)
      | Panics p \<Rightarrow> Panics p)"

text \<open>
  The content of \<^verbatim>\<open>key\<close> and \<^verbatim>\<open>value\<close> after the loop has scanned the given rows.
\<close>

fun scan_state :: "(cell \<times> cell) list \<Rightarrow> string \<times> string \<Rightarrow> string \<times> string" where
  "scan_state [] kv = kv"
| "scan_state (r # rows) kv = scan_state rows (fst (Scan_row r kv))"

text \<open>
  \<open>decodes_again\<close>: the switch accepts the key and value once more, and leaves a map
  unless the map was nil before.
\<close>

definition decodes_again ::
    "(string \<Rightarrow> error + 'f) \<Rightarrow> (string \<Rightarrow> 'j document) \<Rightarrow> string \<times> string \<Rightarrow>
     ('f, 'j) metadata_map \<Rightarrow> bool" where
  "decodes_again ParseFloat Unmarshal kv metadata =
     (case decode_item ParseFloat Unmarshal (fst kv) (snd kv) metadata of
        Returns (Inr metadata') \<Rightarrow> metadata' \<noteq> None \<or> metadata = None
      | Returns (Inl err) \<Rightarrow> False
      | Panics p \<Rightarrow> False)"

text \<open>
  Lines 188 to 200: the zoom levels are looked up in \<^verbatim>\<open>tiles\<close> unless both keys are in
  the map, and on success both entries are assigned. Reading a nil map finds no key.
\<close>

definition has_key :: "('f, 'j) metadata_map \<Rightarrow> string \<Rightarrow> bool" where
  "has_key metadata k = (case metadata of None \<Rightarrow> False | Some m \<Rightarrow> m k \<noteq> None)"

definition supplement ::
    "sqlDB \<Rightarrow> ('f, 'j) metadata_map \<Rightarrow> (('f, 'j) metadata_map \<times> error option) outcome" where
  "supplement con metadata =
     (if \<not> (has_key metadata ''minzoom'' \<and> has_key metadata ''maxzoom'') then
        (case zoom_range con of
           Inl err \<Rightarrow> Returns (metadata, None)
         | Inr (minZoom, maxZoom) \<Rightarrow>
             (case metadata of
                None \<Rightarrow> Panics NilMapAssignment
              | Some m \<Rightarrow>
                  Returns (Some (m(''minzoom'' \<mapsto> IntItem minZoom, ''maxzoom'' \<mapsto> IntItem maxZoom)),
                           None)))
      else Returns (metadata, None))"

text \<open>
  \<^verbatim>\<open>ReadMetadata\<close> (lines 141 to 201). The result is the pair of the map and the error;
  with an error the map returned is nil.
\<close>

definition ReadMetadata ::
    "(string \<Rightarrow> error + 'f) \<Rightarrow> (string \<Rightarrow> 'j document) \<Rightarrow> MBtiles option \<Rightarrow>
     (('f, 'j) metadata_map \<times> error option) outcome" where
  "ReadMetadata ParseFloat Unmarshal db =
     (case db of
        None \<Rightarrow> Returns (None, Some ClosedDatabase)
      | Some h \<Rightarrow>
          (case pool h of
             None \<Rightarrow> Returns (None, Some ClosedDatabase)
           | Some con \<Rightarrow>
               (case metadata_rows con of
                  Inl err \<Rightarrow> Returns (None, Some err)
                | Inr rows \<Rightarrow>
                    (case decode_rows ParseFloat Unmarshal rows ([], []) (Some Map.empty) of
                       Panics p \<Rightarrow> Panics p
                     | Returns (Inl err) \<Rightarrow> Returns (None, Some err)
                     | Returns (Inr metadata) \<Rightarrow> supplement con metadata))))"

text \<open>
  The map variable becomes nil only when \<^verbatim>\<open>json.Unmarshal\<close> reads \<^verbatim>\<open>null\<close>.
  \<open>no_null\<close> says that it does so for no value of the rows, nor for the empty
  string that \<^verbatim>\<open>value\<close> holds before the first row.
\<close>

definition no_null :: "(string \<Rightarrow> 'j document) \<Rightarrow> (cell \<times> cell) list \<Rightarrow> bool" where
  "no_null Unmarshal rows =
     (Unmarshal [] \<noteq> JSONNull \<and>
      list_all (\<lambda>r. case snd r of None \<Rightarrow> True | Some s \<Rightarrow> Unmarshal s \<noteq> JSONNull) rows)"

section \<open>Sample containers\<close>

text \<open>
  A directory \<^verbatim>\<open>tilesets\<close> with two containers: \<^verbatim>\<open>bar.mbtiles\<close>, last modified 1.5
  seconds after the zero time, and \<^verbatim>\<open>foo.mbtiles\<close>, which has a journal beside it. Both
  hold the same database: tiles at zoom 3 and zoom 9 only, gzip payloads, and a metadata
  table without zoom entries. \<open>sample_handle\<close> is what \<^verbatim>\<open>Open\<close> returns for
  \<^verbatim>\<open>bar.mbtiles\<close>.
\<close>

definition gzip_tile :: bytes where
  "gzip_tile = [0x1F, 0x8B, 0x08, 0x00]"

definition tile_at :: "int \<Rightarrow> int \<Rightarrow> int \<Rightarrow> bytes \<Rightarrow> tiles_row" where
  "tile_at z x y payload =
     \<lparr>zoom_level = Some z, tile_column = Some x, tile_row = Some y, tile_data = Some payload\<rparr>"

definition mbtiles_schema :: "schema_object list" where
  "mbtiles_schema =
     [\<lparr>obj_type = ''table'', obj_name = ''tiles''\<rparr>,
      \<lparr>obj_type = ''table'', obj_name = ''metadata''\<rparr>]"

definition sample_database :: database where
  "sample_database =
     \<lparr>sqlite_master = mbtiles_schema,
      tiles_table = [tile_at 3 1 2 gzip_tile, tile_at 9 5 7 gzip_tile],
      metadata_table = [(Some ''name'', Some ''sample'')]\<rparr>"

definition sample_world :: world where
  "sample_world =
     \<lparr>os_Stat = (\<lambda>p. if p = ''tilesets/bar.mbtiles'' then Inr \<lparr>ModTime = 1500000000\<rparr>
                     else if p = ''tilesets/foo.mbtiles'' \<or> p = ''tilesets/foo.mbtiles-journal''
                     then Inr \<lparr>ModTime = 7000000000\<rparr>
                     else Inl ErrNotExist),
      sql_Open = (\<lambda>p. Inr (Readable sample_database)),
      filepath_Walk = (\<lambda>dir. [(''tilesets'', None), (''tilesets/bar.mbtiles'', None),
                               (''tilesets/foo.mbtiles'', None),
                               (''tilesets/foo.mbtiles-journal'', None)])\<rparr>"

definition sample_handle :: MBtiles where
  "sample_handle =
     \<lparr>filename = ''tilesets/bar.mbtiles'',
      pool = Some \<lparr>db_closed = False, db_file = Readable sample_database\<rparr>,
      tileStmt = Some \<lparr>stmt_closed = False, stmt_file = Readable sample_database\<rparr>,
      format = PBF, timestamp = 2000000000, tilesize = 0\<rparr>"

text \<open>
  A handle whose statement can no longer read the file, and the handle that a
  caller holds without ever opening a container (the zero struct).
\<close>

definition stale_handle :: MBtiles where
  "stale_handle =
     sample_handle\<lparr>tileStmt := Some \<lparr>stmt_closed = False, stmt_file = Unreadable ''disk I/O error''\<rparr>\<rparr>"

definition zero_handle :: MBtiles where
  "zero_handle =
     \<lparr>filename = [], pool = None, tileStmt = None, format = UNKNOWN, timestamp = 0,
      tilesize = 0\<rparr>"

text \<open>
  Two more databases with the tiles of the sample: one whose schema has the table
  \<^verbatim>\<open>tiles\<close> and nothing else, and one whose schema has the table \<^verbatim>\<open>tiles\<close> and an
  index on it that is named \<^verbatim>\<open>metadata\<close>
  (\<^verbatim>\<open>CREATE INDEX metadata ON tiles (zoom_level)\<close>). Neither has a metadata table.
\<close>

definition tiles_only_database :: database where
  "tiles_only_database =
     sample_database\<lparr>sqlite_master := [\<lparr>obj_type = ''table'', obj_name = ''tiles''\<rparr>],
                      metadata_table := []\<rparr>"

definition indexed_database :: database where
  "indexed_database =
     sample_database\<lparr>sqlite_master := [\<lparr>obj_type = ''table'', obj_name = ''tiles''\<rparr>,
                                        \<lparr>obj_type = ''index'', obj_name = ''metadata''\<rparr>],
                      metadata_table := []\<rparr>"

definition world_with :: "database \<Rightarrow> world" where
  "world_with d = sample_world\<lparr>sql_Open := (\<lambda>p. Inr (Readable d))\<rparr>"

text \<open>
  Stand-ins for the two library functions that \<^verbatim>\<open>ReadMetadata\<close> takes as parameters,
  defined on the texts of the examples only. A \<^verbatim>\<open>float64\<close> is written as the real
  number it denotes; the four literals are \<^verbatim>\<open>float64\<close> values. A JSON value is kept as
  its text.
\<close>

definition sample_ParseFloat :: "string \<Rightarrow> error + real" where
  "sample_ParseFloat s =
     (if s = ''-1.5'' then Inr (-1.5)
      else if s = ''2.25'' then Inr 2.25
      else if s = ''10'' then Inr 10
      else if s = ''-3'' then Inr (-3)
      else Inl ErrSyntax)"

definition sample_Unmarshal :: "string \<Rightarrow> string document" where
  "sample_Unmarshal s =
     (if s = ''null'' then JSONNull
      else if s = ''{}'' then JSONObject []
      else JSONInvalid)"

text \<open>
  The handle that \<^verbatim>\<open>Open\<close> returns for a container with the tiles of the sample and
  the given metadata rows.
\<close>

definition handle_with :: "(cell \<times> cell) list \<Rightarrow> MBtiles" where
  "handle_with rows =
     sample_handle
       \<lparr>pool := Some \<lparr>db_closed = False,
                       db_file = Readable (sample_database\<lparr>metadata_table := rows\<rparr>)\<rparr>,
        tileStmt := Some \<lparr>stmt_closed = False,
                           stmt_file = Readable (sample_database\<lparr>metadata_table := rows\<rparr>)\<rparr>\<rparr>"

text \<open>
  The handle on a given database, a database whose only tile has a payload of length
  zero, and a database whose two tables were created as \<^verbatim>\<open>Tiles\<close> and \<^verbatim>\<open>Metadata\<close>.
\<close>

definition handle_on :: "database \<Rightarrow> MBtiles" where
  "handle_on d =
     sample_handle
       \<lparr>pool := Some \<lparr>db_closed = False, db_file = Readable d\<rparr>,
        tileStmt := Some \<lparr>stmt_closed = False, stmt_file = Readable d\<rparr>\<rparr>"

definition blank_database :: database where
  "blank_database = sample_database\<lparr>tiles_table := [tile_at 5 0 0 []]\<rparr>"

definition capital_database :: database where
  "capital_database =
     sample_database\<lparr>sqlite_master := [\<lparr>obj_type = ''table'', obj_name = ''Tiles''\<rparr>,
                                        \<lparr>obj_type = ''table'', obj_name = ''Metadata''\<rparr>]\<rparr>"

section \<open>Opening a container\<close>

lemmas sample_defs =
  sample_world_def sample_database_def mbtiles_schema_def tile_at_def gzip_tile_def
  sample_handle_def

lemmas relation_defs = relation_exists_def same_name_def ascii_lower_def

lemmas open_defs =
  Open_def validateRequiredTables_def count_required_def on_database_def
  getTileFormatAndSize_def first_tile_def relation_defs Prepare_def scan_blob_def content_def

lemma Open_sample:
  "Open sample_world detectTileFormat no_size ''tilesets/bar.mbtiles'' = (Some sample_handle, None)"
  by (simp add: open_defs sample_defs detectTileFormat_def signatures_def no_size_def
      Round_def Second_def)

lemma Open_missing:
  "Open sample_world dtf dts ''missing.mbtiles'' =
     (None, Some (PathDoesNotExist ''missing.mbtiles''))"
  by (simp add: Open_def sample_world_def)

lemma Open_handle_with:
  "Open (world_with (sample_database\<lparr>metadata_table := rows\<rparr>)) detectTileFormat no_size
       ''tilesets/bar.mbtiles'' = (Some (handle_with rows), None)"
  by (simp add: open_defs world_with_def handle_with_def sample_defs detectTileFormat_def
      signatures_def no_size_def Round_def Second_def)

text \<open>
  What a successful \<^verbatim>\<open>Open\<close> has found and what it returns: the file exists, the
  driver reads a database with a relation \<^verbatim>\<open>tiles\<close>, the handle holds an open pool and
  an open statement on it, the detected format and size, and the rounded modification
  time.
\<close>

lemma Open_success:
  assumes "Open w dtf dts path = (Some h, None)"
  shows "\<exists>info d fmt ts.
           os_Stat w path = Inr info \<and>
           sql_Open w path = Inr (Readable d) \<and>
           relation_exists d ''tiles'' \<and>
           getTileFormatAndSize dtf dts \<lparr>db_closed = False, db_file = Readable d\<rparr> = (fmt, ts, None) \<and>
           h = \<lparr>filename = path,
                pool = Some \<lparr>db_closed = False, db_file = Readable d\<rparr>,
                tileStmt = Some \<lparr>stmt_closed = False, stmt_file = Readable d\<rparr>,
                format = fmt, timestamp = Round (ModTime info) Second, tilesize = ts\<rparr>"
  using assms
  by (auto simp: Open_def Prepare_def on_database_def Let_def
      split: sum.splits option.splits prod.splits if_splits dbfile.splits)

subsection \<open>The timestamp\<close>

lemma Round_Second_whole: "Round t Second mod Second = 0"
  by (simp add: Round_def Second_def Let_def) presburger

lemma Round_Second_near: "2 * \<bar>Round t Second - t\<bar> \<le> Second"
  by (simp add: Round_def Second_def Let_def)

text \<open>
  Claim C6, as the code has it. For every handle that \<^verbatim>\<open>Open\<close> returns, the timestamp
  accessor returns the last-modified time of the container file rounded to the nearest
  whole second (\<^verbatim>\<open>Round\<close>, line 76): a whole number of seconds at most half a second
  away from the modification time. The value is fixed when the container is opened:
  \<^verbatim>\<open>Close\<close>, the only operation that changes anything behind the handle, leaves it as
  it is.
\<close>

theorem timestamp_rounded:
  assumes "Open w dtf dts path = (Some h, None)"
  shows "\<exists>info h'.
           os_Stat w path = Inr info \<and>
           GetTimestamp (Some h) = Returns (Round (ModTime info) Second) \<and>
           Round (ModTime info) Second mod Second = 0 \<and>
           2 * \<bar>Round (ModTime info) Second - ModTime info\<bar> \<le> Second \<and>
           Close (Some h) = Returns (Some h') \<and>
           GetTimestamp (Some h') = GetTimestamp (Some h)"
proof -
  from Open_success [OF assms] obtain info where
    "os_Stat w path = Inr info" and "timestamp h = Round (ModTime info) Second"
    by auto
  then show ?thesis
    by (simp add: GetTimestamp_def Close_def Round_Second_whole Round_Second_near)
qed

theorem timestamp_rounded_witness:
  "Open sample_world detectTileFormat no_size ''tilesets/bar.mbtiles'' = (Some sample_handle, None) \<and>
   GetTimestamp (Some sample_handle) = Returns 2000000000"
  using timestamp_rounded [OF Open_sample]
  by (simp add: Open_sample GetTimestamp_def sample_handle_def)

text \<open>
  Claim C6 as stated (the time is truncated to whole seconds) fails for a file modified
  1.5 seconds after the zero time: truncation gives 1 second, the accessor returns 2.
\<close>

theorem timestamp_truncated_counterexample:
  "os_Stat sample_world ''tilesets/bar.mbtiles'' = Inr \<lparr>ModTime = 1500000000\<rparr> \<and>
   Truncate 1500000000 Second = 1000000000 \<and>
   snd (Open sample_world detectTileFormat no_size ''tilesets/bar.mbtiles'') = None \<and>
   GetTimestamp (fst (Open sample_world detectTileFormat no_size ''tilesets/bar.mbtiles''))
     = Returns 2000000000"
  by (simp add: Open_sample GetTimestamp_def sample_handle_def)
    (simp add: sample_world_def Truncate_def Second_def)

section \<open>Closing a handle\<close>

lemma Close_sample:
  "Close (Some sample_handle) =
     Returns (Some (sample_handle
       \<lparr>tileStmt := Some \<lparr>stmt_closed = True, stmt_file = Readable sample_database\<rparr>,
        pool := Some \<lparr>db_closed = True, db_file = Readable sample_database\<rparr>\<rparr>))"
  by (simp add: Close_def sample_handle_def Stmt_Close_def DB_Close_def)

text \<open>
  On a handle that is not nil, \<^verbatim>\<open>Close\<close> returns, also on the zero struct, and a second
  \<^verbatim>\<open>Close\<close> changes nothing.
\<close>

lemma Close_returns: "\<exists>h'. Close (Some h) = Returns (Some h')"
  by (simp add: Close_def)

lemma Close_zero: "Close (Some zero_handle) = Returns (Some zero_handle)"
  by (simp add: Close_def zero_handle_def)

lemma Close_idempotent:
  assumes "Close (Some h) = Returns db'"
  shows "Close db' = Returns db'"
  using assms
  by (cases "tileStmt h"; cases "pool h")
    (auto simp: Close_def Stmt_Close_def DB_Close_def)

text \<open>
  Claim C7 (\<^verbatim>\<open>Close\<close> never fails, also on the cleanup path after an \<^verbatim>\<open>Open\<close> that
  returned an error). When \<^verbatim>\<open>Open\<close> fails, the handle it returns is nil. \<^verbatim>\<open>ReadTile\<close>
  and \<^verbatim>\<open>ReadMetadata\<close> test \<^verbatim>\<open>db == nil\<close> first; \<^verbatim>\<open>Close\<close> reads \<^verbatim>\<open>db.tileStmt\<close>
  at once (line 113) and panics. Here: a path that does not exist.
\<close>

theorem Close_after_failed_Open:
  "Open sample_world detectTileFormat no_size ''missing.mbtiles'' =
     (None, Some (PathDoesNotExist ''missing.mbtiles'')) \<and>
   Close (fst (Open sample_world detectTileFormat no_size ''missing.mbtiles'')) =
     Panics NilPointerDereference \<and>
   ReadTile (fst (Open sample_world detectTileFormat no_size ''missing.mbtiles'')) 3 1 2 None =
     (None, Some ClosedDatabase)"
  by (simp add: Open_missing Close_def ReadTile_def)

section \<open>Reading from a handle that is not open\<close>

text \<open>
  A nil handle and a handle whose fields were never set are answered with the error of
  lines 125 and 143.
\<close>

lemma ReadTile_never_opened:
  "ReadTile None z x y data = (data, Some ClosedDatabase)"
  "tileStmt h = None \<Longrightarrow> ReadTile (Some h) z x y data = (data, Some ClosedDatabase)"
  by (simp_all add: ReadTile_def)

lemma ReadMetadata_never_opened:
  "ReadMetadata pf um None = Returns (None, Some ClosedDatabase)"
  "pool h = None \<Longrightarrow> ReadMetadata pf um (Some h) = Returns (None, Some ClosedDatabase)"
  by (simp_all add: ReadMetadata_def)

text \<open>
  After \<^verbatim>\<open>Close\<close> the two fields still point to the closed objects, so the guards of
  lines 124 and 142 do not fire and the reads fail with the errors of \<^verbatim>\<open>database/sql\<close>.
\<close>

lemma reads_after_Close:
  assumes "Open w dtf dts path = (Some h, None)"
  shows "\<exists>h'. Close (Some h) = Returns (Some h') \<and>
           ReadTile (Some h') z x y data = (data, Some StmtClosed) \<and>
           ReadMetadata pf um (Some h') = Returns (None, Some DBClosed)"
proof -
  from Open_success [OF assms] obtain d where
    "pool h = Some \<lparr>db_closed = False, db_file = Readable d\<rparr>"
    "tileStmt h = Some \<lparr>stmt_closed = False, stmt_file = Readable d\<rparr>"
    by auto
  then show ?thesis
    by (simp add: Close_def ReadTile_def lookup_tile_def ReadMetadata_def metadata_rows_def
        on_database_def Stmt_Close_def DB_Close_def)
qed

text \<open>
  Claim C2 (after \<^verbatim>\<open>Close\<close>, every read fails with the closed-database error of the
  package). On the sample container: \<^verbatim>\<open>Open\<close>, then \<^verbatim>\<open>Close\<close>, then \<^verbatim>\<open>ReadTile\<close>
  fails with "sql: statement is closed" and \<^verbatim>\<open>ReadMetadata\<close> with
  "sql: database is closed"; neither is the error of lines 125 and 143.
\<close>

theorem Close_then_read:
  "Open sample_world detectTileFormat no_size ''tilesets/bar.mbtiles'' = (Some sample_handle, None) \<and>
   (case Close (Some sample_handle) of
      Returns db \<Rightarrow>
        ReadTile db 3 1 2 None = (None, Some StmtClosed) \<and>
        StmtClosed \<noteq> ClosedDatabase \<and>
        ReadMetadata pf um db = Returns (None, Some DBClosed) \<and>
        DBClosed \<noteq> ClosedDatabase
    | Panics p \<Rightarrow> False)"
  by (simp add: Open_sample Close_sample ReadTile_def lookup_tile_def ReadMetadata_def
      metadata_rows_def on_database_def)

section \<open>Reading a tile\<close>

lemma find_has_coordinates:
  "find P rows = Some r \<Longrightarrow> r \<in> set rows \<and> P r"
  by (auto simp: find_Some_iff)

lemma content_scan_blob: "content (scan_blob blob) = content blob"
  by (simp add: content_def scan_blob_def split: option.splits)

text \<open>
  Claim C3. On a handle with an open statement, for every coordinate \<open>(z, x, y)\<close>:
  when the tiles relation has a row with these coordinates, \<^verbatim>\<open>ReadTile\<close> returns the
  payload of such a row, as the scan of the cell leaves it in \<^verbatim>\<open>*data\<close> (the bytes of
  the payload; the nil slice when the payload has none), and a nil error; when the
  relation has no such row, the payload is nil and the error is nil; every other
  failure of the query is returned as the error, with \<^verbatim>\<open>*data\<close> untouched; and the
  error is nil exactly when the statement could run on the tiles relation, that is in
  the first two cases.
\<close>

theorem ReadTile_outcomes:
  assumes "tileStmt h = Some stmt" and "\<not> stmt_closed stmt"
  shows "(\<forall>d. stmt_file stmt = Readable d \<and> relation_exists d ''tiles'' \<and>
               (\<exists>r \<in> set (tiles_table d). has_coordinates z x y r) \<longrightarrow>
             (\<exists>r \<in> set (tiles_table d). has_coordinates z x y r \<and>
                ReadTile (Some h) z x y data = (scan_blob (tile_data r), None) \<and>
                content (fst (ReadTile (Some h) z x y data)) = content (tile_data r))) \<and>
         (\<forall>d. stmt_file stmt = Readable d \<and> relation_exists d ''tiles'' \<and>
               \<not> (\<exists>r \<in> set (tiles_table d). has_coordinates z x y r) \<longrightarrow>
             ReadTile (Some h) z x y data = (None, None)) \<and>
         (\<forall>err. lookup_tile stmt z x y = Inl err \<and> err \<noteq> ErrNoRows \<longrightarrow>
             ReadTile (Some h) z x y data = (data, Some err)) \<and>
         (snd (ReadTile (Some h) z x y data) = None \<longleftrightarrow>
            (\<exists>d. stmt_file stmt = Readable d \<and> relation_exists d ''tiles''))"
proof (intro conjI allI impI)
  fix d
  assume a: "stmt_file stmt = Readable d \<and> relation_exists d ''tiles'' \<and>
               (\<exists>r \<in> set (tiles_table d). has_coordinates z x y r)"
  then obtain r where f: "find (has_coordinates z x y) (tiles_table d) = Some r"
    by (cases "find (has_coordinates z x y) (tiles_table d)") (auto simp: find_None_iff)
  with a assms have "ReadTile (Some h) z x y data = (scan_blob (tile_data r), None)"
    by (simp add: ReadTile_def lookup_tile_def)
  with find_has_coordinates [OF f]
  show "\<exists>r \<in> set (tiles_table d). has_coordinates z x y r \<and>
                ReadTile (Some h) z x y data = (scan_blob (tile_data r), None) \<and>
                content (fst (ReadTile (Some h) z x y data)) = content (tile_data r)"
    by (auto simp: content_scan_blob)
next
  fix d
  assume "stmt_file stmt = Readable d \<and> relation_exists d ''tiles'' \<and>
               \<not> (\<exists>r \<in> set (tiles_table d). has_coordinates z x y r)"
  then have "stmt_file stmt = Readable d" "relation_exists d ''tiles''"
    "find (has_coordinates z x y) (tiles_table d) = None"
    by (auto simp: find_None_iff)
  with assms show "ReadTile (Some h) z x y data = (None, None)"
    by (simp add: ReadTile_def lookup_tile_def)
next
  fix err
  assume "lookup_tile stmt z x y = Inl err \<and> err \<noteq> ErrNoRows"
  with assms show "ReadTile (Some h) z x y data = (data, Some err)"
    by (simp add: ReadTile_def)
next
  from assms show "snd (ReadTile (Some h) z x y data) = None \<longleftrightarrow>
            (\<exists>d. stmt_file stmt = Readable d \<and> relation_exists d ''tiles'')"
    by (auto simp: ReadTile_def lookup_tile_def split: dbfile.splits option.splits)
qed

theorem ReadTile_outcomes_witness:
  "ReadTile (Some sample_handle) 3 1 2 None = (Some gzip_tile, None) \<and>
   ReadTile (Some sample_handle) 4 0 0 (Some gzip_tile) = (None, None) \<and>
   ReadTile (Some (handle_on blank_database)) 5 0 0 (Some gzip_tile) = (None, None) \<and>
   ReadTile (Some stale_handle) 3 1 2 None = (None, Some (DriverError ''disk I/O error''))"
proof -
  have open_stmt:
    "tileStmt sample_handle = Some \<lparr>stmt_closed = False, stmt_file = Readable sample_database\<rparr>"
    "\<not> stmt_closed \<lparr>stmt_closed = False, stmt_file = Readable sample_database\<rparr>"
    by (simp_all add: sample_handle_def)
  have blank_stmt:
    "tileStmt (handle_on blank_database) =
       Some \<lparr>stmt_closed = False, stmt_file = Readable blank_database\<rparr>"
    "\<not> stmt_closed \<lparr>stmt_closed = False, stmt_file = Readable blank_database\<rparr>"
    by (simp_all add: handle_on_def sample_handle_def)
  have stale_stmt:
    "tileStmt stale_handle = Some \<lparr>stmt_closed = False, stmt_file = Unreadable ''disk I/O error''\<rparr>"
    "\<not> stmt_closed \<lparr>stmt_closed = False, stmt_file = Unreadable ''disk I/O error''\<rparr>"
    by (simp_all add: stale_handle_def)
  have rel: "relation_exists sample_database ''tiles''" "relation_exists blank_database ''tiles''"
    by (simp_all add: relation_defs blank_database_def sample_database_def mbtiles_schema_def)
  show ?thesis
    using ReadTile_outcomes [OF open_stmt, of 3 1 2 None]
      ReadTile_outcomes [OF open_stmt, of 4 0 0 "Some gzip_tile"]
      ReadTile_outcomes [OF blank_stmt, of 5 0 0 "Some gzip_tile"]
      ReadTile_outcomes [OF stale_stmt, of 3 1 2 None]
    by (simp add: rel lookup_tile_def)
      (simp add: blank_database_def sample_database_def tile_at_def has_coordinates_def
        scan_blob_def gzip_tile_def)
qed

section \<open>Format detection\<close>

text \<open>A payload that starts with the gzip magic is reported as \<^verbatim>\<open>GZIP\<close> by the detector.\<close>

lemma detect_gzip:
  assumes "prefix [0x1F, 0x8B] tileData"
  shows "detectTileFormat tileData = (GZIP, None)"
  using assms by (simp add: detectTileFormat_def signatures_def)

text \<open>
  Whatever the detectors are, a handle never holds \<^verbatim>\<open>GZIP\<close>: line 299 has replaced
  it before line 95 stores the format.
\<close>

lemma stored_format_not_GZIP:
  assumes "Open w dtf dts path = (Some h, None)"
  shows "format h \<noteq> GZIP"
proof -
  from Open_success [OF assms] obtain d fmt ts where
    "getTileFormatAndSize dtf dts \<lparr>db_closed = False, db_file = Readable d\<rparr> = (fmt, ts, None)"
    and "format h = fmt"
    by auto
  then show ?thesis
    by (auto simp: getTileFormatAndSize_def Let_def
        split: sum.splits prod.splits option.splits if_splits)
qed

text \<open>
  Claim C4. When the payload of the sampled tile starts with the gzip magic signature
  \<open>1F 8B\<close>, \<^verbatim>\<open>getTileFormat\<close> returns \<^verbatim>\<open>PBF\<close> with a nil error,
  \<^verbatim>\<open>getTileFormatAndSize\<close> returns \<^verbatim>\<open>PBF\<close> as the format whatever the size detection
  does, and the handle that \<^verbatim>\<open>Open\<close> returns for this container reports \<^verbatim>\<open>PBF\<close>.
  For every detector, the format stored in a handle is never \<^verbatim>\<open>GZIP\<close>.
\<close>

theorem gzip_classified_as_PBF:
  assumes "prefix [0x1F, 0x8B] tileData" and "first_tile con = Inr tileData"
  shows "getTileFormat detectTileFormat con = (PBF, None) \<and>
         fst (getTileFormatAndSize detectTileFormat dts con) = PBF \<and>
         (\<forall>w path h. Open w detectTileFormat dts path = (Some h, None) \<and> pool h = Some con \<longrightarrow>
            GetTileFormat (Some h) = Returns PBF) \<and>
         (\<forall>w dtf path h. Open w dtf dts path = (Some h, None) \<longrightarrow> format h \<noteq> GZIP)"
proof (intro conjI allI impI)
  show "getTileFormat detectTileFormat con = (PBF, None)"
    by (simp add: getTileFormat_def assms detect_gzip)
  show fs: "fst (getTileFormatAndSize detectTileFormat dts con) = PBF"
    by (simp add: getTileFormatAndSize_def assms detect_gzip split: prod.splits option.splits)
  show "GetTileFormat (Some h) = Returns PBF"
    if "Open w detectTileFormat dts path = (Some h, None) \<and> pool h = Some con" for w path h
  proof -
    from that Open_success [of w detectTileFormat dts path h] obtain ts where
      "getTileFormatAndSize detectTileFormat dts con = (format h, ts, None)"
      by auto
    with fs show ?thesis by (simp add: GetTileFormat_def)
  qed
  show "format h \<noteq> GZIP" if "Open w dtf dts path = (Some h, None)" for w dtf path h
    using that by (rule stored_format_not_GZIP)
qed

theorem gzip_classified_as_PBF_witness:
  "prefix [0x1F, 0x8B] gzip_tile \<and>
   getTileFormat detectTileFormat \<lparr>db_closed = False, db_file = Readable sample_database\<rparr> = (PBF, None) \<and>
   getTileFormatAndSize detectTileFormat no_size \<lparr>db_closed = False, db_file = Readable sample_database\<rparr>
     = (PBF, 0, None) \<and>
   GetTileFormat (fst (Open sample_world detectTileFormat no_size ''tilesets/bar.mbtiles'')) = Returns PBF"
proof -
  have p: "prefix [0x1F, 0x8B] gzip_tile"
    by (simp add: gzip_tile_def)
  have f: "first_tile \<lparr>db_closed = False, db_file = Readable sample_database\<rparr> = Inr gzip_tile"
    by (simp add: first_tile_def on_database_def relation_defs scan_blob_def content_def
        gzip_tile_def sample_database_def
        mbtiles_schema_def tile_at_def)
  have s: "pool sample_handle = Some \<lparr>db_closed = False, db_file = Readable sample_database\<rparr>"
    by (simp add: sample_handle_def)
  show ?thesis
    using gzip_classified_as_PBF [OF p f, of no_size] Open_sample s
    by (simp add: p getTileFormatAndSize_def f detect_gzip no_size_def)
qed

section \<open>Structural validation\<close>

text \<open>
  What \<^verbatim>\<open>validateRequiredTables\<close> checks: the database can be read and
  \<^verbatim>\<open>sqlite_master\<close> lists at least two objects, of any type, that are named
  \<^verbatim>\<open>tiles\<close> or \<^verbatim>\<open>metadata\<close>. Nothing else of the schema is looked at.
\<close>

lemma validate_iff_count:
  "validateRequiredTables con = None \<longleftrightarrow>
     (\<exists>d. \<not> db_closed con \<and> db_file con = Readable d \<and>
        2 \<le> length (filter (\<lambda>ob. obj_name ob = ''tiles'' \<or> obj_name ob = ''metadata'')
                      (sqlite_master d)))"
  by (auto simp: validateRequiredTables_def count_required_def on_database_def
      split: dbfile.splits)

text \<open>
  When the schema lists an object named \<^verbatim>\<open>tiles\<close> and one named \<^verbatim>\<open>metadata\<close>, in these
  letters, the validation passes.
\<close>

lemma both_names_pass:
  assumes "db_file con = Readable d" and "\<not> db_closed con"
    and "''tiles'' \<in> obj_name ` set (sqlite_master d)"
    and "''metadata'' \<in> obj_name ` set (sqlite_master d)"
  shows "validateRequiredTables con = None"
proof -
  let ?named = "filter (\<lambda>ob. obj_name ob = ''tiles'' \<or> obj_name ob = ''metadata'') (sqlite_master d)"
  from assms(3,4) obtain a b where
    "a \<in> set (sqlite_master d)" "obj_name a = ''tiles''"
    "b \<in> set (sqlite_master d)" "obj_name b = ''metadata''"
    by auto
  then have sub: "{a, b} \<subseteq> set ?named" and ne: "a \<noteq> b"
    by auto
  have "card {a, b} \<le> card (set ?named)"
    by (rule card_mono [OF _ sub]) simp
  moreover from ne have "card {a, b} = 2"
    by simp
  ultimately have "2 \<le> length ?named"
    using card_length [of ?named] by linarith
  with assms(1,2) show ?thesis
    by (simp add: validate_iff_count)
qed

text \<open>
  The count compares the names byte for byte, the \<^verbatim>\<open>FROM\<close> clauses do not: a container
  whose tables were created as \<^verbatim>\<open>Tiles\<close> and \<^verbatim>\<open>Metadata\<close> has both relations and is
  refused.
\<close>

lemma Open_capital_names:
  "relation_exists capital_database ''tiles'' \<and>
   relation_exists capital_database ''metadata'' \<and>
   Open (world_with capital_database) detectTileFormat no_size ''tilesets/bar.mbtiles'' =
     (None, Some MissingTables)"
  by (simp add: open_defs world_with_def capital_database_def sample_defs)

text \<open>A container with the table \<^verbatim>\<open>tiles\<close> and no other schema object is refused.\<close>

lemma Open_tiles_only:
  "relation_exists tiles_only_database ''tiles'' \<and>
   \<not> relation_exists tiles_only_database ''metadata'' \<and>
   Open (world_with tiles_only_database) detectTileFormat no_size ''tilesets/bar.mbtiles'' =
     (None, Some MissingTables)"
  by (simp add: open_defs world_with_def tiles_only_database_def sample_defs)

text \<open>
  Claim C5 (validation succeeds if and only if both tables exist; a container with a
  tiles table and no metadata table is refused). The count of line 245 is over every
  row of \<^verbatim>\<open>sqlite_master\<close>, indexes and triggers included. A container with the table
  \<^verbatim>\<open>tiles\<close> and an index named \<^verbatim>\<open>metadata\<close> has no metadata table, yet the count
  is 2, the validation passes and \<^verbatim>\<open>Open\<close> returns a handle.
\<close>

theorem index_named_metadata:
  "relation_exists indexed_database ''tiles'' \<and>
   \<not> relation_exists indexed_database ''metadata'' \<and>
   validateRequiredTables \<lparr>db_closed = False, db_file = Readable indexed_database\<rparr> = None \<and>
   snd (Open (world_with indexed_database) detectTileFormat no_size ''tilesets/bar.mbtiles'') = None \<and>
   fst (Open (world_with indexed_database) detectTileFormat no_size ''tilesets/bar.mbtiles'') \<noteq> None"
  by (simp add: open_defs world_with_def indexed_database_def sample_defs
      detectTileFormat_def signatures_def no_size_def)


text \<open>
  When no two schema objects have the same name, the validation passes exactly when
  both names are listed.
\<close>

lemma count_name:
  assumes "distinct (map obj_name obs)"
  shows "length (filter (\<lambda>ob. obj_name ob = a) obs) = (if a \<in> obj_name ` set obs then 1 else 0)"
  using assms by (induction obs) (auto simp: image_iff)

lemma count_either:
  assumes "a \<noteq> b"
  shows "length (filter (\<lambda>ob. obj_name ob = a \<or> obj_name ob = b) obs) =
         length (filter (\<lambda>ob. obj_name ob = a) obs) + length (filter (\<lambda>ob. obj_name ob = b) obs)"
  using assms by (induction obs) auto

lemma validate_iff_names:
  assumes "db_file con = Readable d" and "\<not> db_closed con"
    and "distinct (map obj_name (sqlite_master d))"
  shows "validateRequiredTables con = None \<longleftrightarrow>
           ''tiles'' \<in> obj_name ` set (sqlite_master d) \<and>
           ''metadata'' \<in> obj_name ` set (sqlite_master d)"
proof -
  have "validateRequiredTables con = None \<longleftrightarrow>
          2 \<le> length (filter (\<lambda>ob. obj_name ob = ''tiles'' \<or> obj_name ob = ''metadata'')
                      (sqlite_master d))"
    using assms(1,2) by (simp add: validate_iff_count)
  also have "\<dots> \<longleftrightarrow> ''tiles'' \<in> obj_name ` set (sqlite_master d) \<and>
                    ''metadata'' \<in> obj_name ` set (sqlite_master d)"
    by (simp add: count_either count_name [OF assms(3)])
  finally show ?thesis .
qed

section \<open>Containers with a journal\<close>

text \<open>
  The extension of a path is empty or a suffix of the path, so a path that ends with
  \<^verbatim>\<open>-journal\<close> never has the extension \<^verbatim>\<open>.mbtiles\<close>.
\<close>

lemma Ext_scan_suffix:
  "Ext_scan front seen = [] \<or> suffix (Ext_scan front seen) (rev front @ seen)"
proof (induction front arbitrary: seen)
  case Nil
  then show ?case by simp
next
  case (Cons c front)
  from Cons.IH [of "c # seen"] show ?case
    by (auto simp: suffix_def)
qed

lemma Ext_suffix: "Ext path = [] \<or> suffix (Ext path) path"
  using Ext_scan_suffix [of "rev path" "[]"] by (simp add: Ext_def)

lemma Ext_journal: "Ext (p @ ''-journal'') \<noteq> ''.mbtiles''"
proof
  assume e: "Ext (p @ ''-journal'') = ''.mbtiles''"
  with Ext_suffix [of "p @ ''-journal''"] obtain zs where
    "p @ ''-journal'' = zs @ ''.mbtiles''"
    by (auto simp: suffix_def)
  then have "last (p @ ''-journal'') = last (zs @ ''.mbtiles'')"
    by simp
  then show False by simp
qed

text \<open>
  Every path that the walk adds to the list has the extension \<^verbatim>\<open>.mbtiles\<close> and no
  journal beside it.
\<close>

lemma walk_results:
  assumes "q \<in> set (fst (walk w visits filenames))"
  shows "q \<in> set filenames \<or>
         (Ext q = ''.mbtiles'' \<and> (\<forall>info. os_Stat w (q @ ''-journal'') \<noteq> Inr info))"
  using assms
proof (induction visits arbitrary: filenames)
  case Nil
  then show ?case by simp
next
  case (Cons v visits)
  obtain p err where v: "v = (p, err)" by (cases v)
  show ?case
  proof (cases err)
    case (Some e)
    with Cons.prems v show ?thesis by simp
  next
    case None
    show ?thesis
    proof (cases "os_Stat w (p @ ''-journal'')")
      case (Inr info)
      with Cons.prems v None have "q \<in> set (fst (walk w visits filenames))" by simp
      then show ?thesis by (rule Cons.IH)
    next
      case (Inl e)
      show ?thesis
      proof (cases "Ext p = ''.mbtiles''")
        case True
        with Cons.prems v None Inl have "q \<in> set (fst (walk w visits (filenames @ [p])))"
          by simp
        from Cons.IH [OF this] True Inl show ?thesis by auto
      next
        case False
        with Cons.prems v None Inl have "q \<in> set (fst (walk w visits filenames))" by simp
        then show ?thesis by (rule Cons.IH)
      qed
    qed
  qed
qed

lemma FindMBtiles_results:
  assumes "q \<in> set (fst (FindMBtiles w dir))"
  shows "Ext q = ''.mbtiles'' \<and> (\<forall>info. os_Stat w (q @ ''-journal'') \<noteq> Inr info)"
  using walk_results [of q w "filepath_Walk w dir" "[]"] assms
  by (simp add: FindMBtiles_def)

lemma Open_journal:
  assumes "os_Stat w p = Inr st" and "os_Stat w (p @ ''-journal'') = Inr info"
  shows "Open w dtf dts p = (None, Some JournalFile)"
  using assms by (simp add: Open_def)

text \<open>
  Claim C8. When a file \<^verbatim>\<open>p-journal\<close> exists beside a container \<^verbatim>\<open>p\<close>,
  \<^verbatim>\<open>FindMBtiles\<close> returns neither \<^verbatim>\<open>p\<close> nor the journal, whatever the root and the
  walk are, and \<^verbatim>\<open>Open\<close> of \<^verbatim>\<open>p\<close> fails with the error of line 65 whatever
  \<^verbatim>\<open>sql.Open\<close> would answer: the driver is not asked.
\<close>

theorem journal_excluded:
  assumes "os_Stat w (p @ ''-journal'') = Inr info"
  shows "p \<notin> set (fst (FindMBtiles w dir)) \<and>
         p @ ''-journal'' \<notin> set (fst (FindMBtiles w dir)) \<and>
         (\<forall>st dtf dts driver. os_Stat w p = Inr st \<longrightarrow>
            Open (w\<lparr>sql_Open := driver\<rparr>) dtf dts p = (None, Some JournalFile))"
proof (intro conjI allI impI)
  show "p \<notin> set (fst (FindMBtiles w dir))"
    using FindMBtiles_results [of p w dir] assms by auto
  show "p @ ''-journal'' \<notin> set (fst (FindMBtiles w dir))"
    using FindMBtiles_results [of "p @ ''-journal''" w dir] Ext_journal [of p] by auto
  show "Open (w\<lparr>sql_Open := driver\<rparr>) dtf dts p = (None, Some JournalFile)"
    if "os_Stat w p = Inr st" for st dtf dts driver
    using that assms by (simp add: Open_def)
qed

lemma FindMBtiles_sample:
  "FindMBtiles sample_world ''tilesets'' = ([''tilesets/bar.mbtiles''], None)"
  by (simp add: FindMBtiles_def sample_world_def Ext_def)

theorem journal_excluded_witness:
  "os_Stat sample_world (''tilesets/foo.mbtiles'' @ ''-journal'') = Inr \<lparr>ModTime = 7000000000\<rparr> \<and>
   FindMBtiles sample_world ''tilesets'' = ([''tilesets/bar.mbtiles''], None) \<and>
   ''tilesets/foo.mbtiles'' \<notin> set (fst (FindMBtiles sample_world ''tilesets'')) \<and>
   Open sample_world detectTileFormat no_size ''tilesets/foo.mbtiles'' = (None, Some JournalFile)"
proof -
  have j: "os_Stat sample_world (''tilesets/foo.mbtiles'' @ ''-journal'') = Inr \<lparr>ModTime = 7000000000\<rparr>"
    by (simp add: sample_world_def)
  have s: "os_Stat sample_world ''tilesets/foo.mbtiles'' = Inr \<lparr>ModTime = 7000000000\<rparr>"
    by (simp add: sample_world_def)
  have w: "sample_world\<lparr>sql_Open := sql_Open sample_world\<rparr> = sample_world"
    by simp
  from journal_excluded [OF j, of "''tilesets''"] s w
  have "''tilesets/foo.mbtiles'' \<notin> set (fst (FindMBtiles sample_world ''tilesets'')) \<and>
        Open sample_world detectTileFormat no_size ''tilesets/foo.mbtiles'' = (None, Some JournalFile)"
    by metis
  with j FindMBtiles_sample show ?thesis by simp
qed

section \<open>Zoom levels inferred from the tiles\<close>

text \<open>
  The answer of the query of line 193 is the least and the greatest zoom level that a
  row of \<^verbatim>\<open>tiles\<close> holds.
\<close>

lemma zoom_levels_set:
  "set (zoom_levels d) = {z. \<exists>r \<in> set (tiles_table d). zoom_level r = Some z}"
  by (auto simp: zoom_levels_def split: option.splits)

lemma zoom_range_Min_Max:
  assumes "zoom_range con = Inr (lo, hi)"
  shows "\<exists>d. db_file con = Readable d \<and> zoom_levels d \<noteq> [] \<and>
             lo = Min (set (zoom_levels d)) \<and> hi = Max (set (zoom_levels d))"
proof -
  have folds: "fold min zs z = Min (set (z # zs))" "fold max zs z = Max (set (z # zs))"
    for z :: int and zs
    by (simp_all only: Min.set_eq_fold Max.set_eq_fold)
  from assms show ?thesis
    by (auto simp: zoom_range_def on_database_def folds
        split: dbfile.splits if_splits list.splits)
qed

lemma zoom_range_sample:
  "zoom_range \<lparr>db_closed = False, db_file = Readable (sample_database\<lparr>metadata_table := rows\<rparr>)\<rparr>
     = Inr (3, 9)"
  by (simp add: zoom_range_def on_database_def relation_defs zoom_levels_def sample_defs)

lemma metadata_rows_handle_with:
  "metadata_rows \<lparr>db_closed = False, db_file = Readable (sample_database\<lparr>metadata_table := rows\<rparr>)\<rparr>
     = Inr (filter (\<lambda>(k, v). v \<noteq> Some []) rows)"
  by (simp add: metadata_rows_def on_database_def relation_defs sample_defs)

lemma ReadMetadata_handle_with:
  "ReadMetadata pf um (Some (handle_with rows)) =
     (case decode_rows pf um (filter (\<lambda>(k, v). v \<noteq> Some []) rows) ([], []) (Some Map.empty) of
        Panics p \<Rightarrow> Panics p
      | Returns (Inl err) \<Rightarrow> Returns (None, Some err)
      | Returns (Inr metadata) \<Rightarrow>
          supplement \<lparr>db_closed = False, db_file = Readable (sample_database\<lparr>metadata_table := rows\<rparr>)\<rparr>
            metadata)"
  by (simp add: ReadMetadata_def handle_with_def sample_handle_def metadata_rows_handle_with)

text \<open>
  When a key is missing and the query succeeds, both entries are assigned (lines 197
  and 198), also the one that was decoded from the table.
\<close>

lemma supplement_assigns_both:
  assumes "\<not> (has_key (Some m) ''minzoom'' \<and> has_key (Some m) ''maxzoom'')"
    and "zoom_range con = Inr (lo, hi)"
  shows "supplement con (Some m) =
           Returns (Some (m(''minzoom'' \<mapsto> IntItem lo, ''maxzoom'' \<mapsto> IntItem hi)), None)"
  using assms by (simp add: supplement_def)

text \<open>When the query fails, the map is returned as it was decoded, with a nil error.\<close>

lemma supplement_best_effort:
  assumes "\<not> (has_key metadata ''minzoom'' \<and> has_key metadata ''maxzoom'')"
    and "zoom_range con = Inl err"
  shows "supplement con metadata = Returns (metadata, None)"
  using assms by (simp add: supplement_def)

lemma supplement_complete:
  assumes "has_key metadata ''minzoom''" and "has_key metadata ''maxzoom''"
  shows "supplement con metadata = Returns (metadata, None)"
  using assms by (simp add: supplement_def)

text \<open>
  The fixture of the specification: no zoom rows in the metadata table, tiles at zoom 3
  and zoom 9 only.
\<close>

lemma ReadMetadata_sample:
  "ReadMetadata pf um (Some (handle_with [(Some ''name'', Some ''sample'')])) =
     Returns (Some [''name'' \<mapsto> StringItem ''sample'', ''minzoom'' \<mapsto> IntItem 3,
                    ''maxzoom'' \<mapsto> IntItem 9], None)"
  by (simp add: ReadMetadata_handle_with Scan_row_def decode_item_def supplement_def
      has_key_def zoom_range_sample)

text \<open>
  Claim C1 (the inferred zoom levels are used for the missing keys only, a key that was
  decoded from the table keeps its value). A metadata table with the single row
  \<^verbatim>\<open>minzoom = 5\<close> over tiles at zoom 3 and zoom 9: the row decodes to 5, the key
  \<^verbatim>\<open>maxzoom\<close> is missing, the query answers 3 and 9, and the map returned has
  \<^verbatim>\<open>minzoom = 3\<close>: the decoded 5 is replaced.
\<close>

theorem parsed_minzoom_overwritten:
  "Open (world_with (sample_database\<lparr>metadata_table := [(Some ''minzoom'', Some ''5'')]\<rparr>))
       detectTileFormat no_size ''tilesets/bar.mbtiles'' =
     (Some (handle_with [(Some ''minzoom'', Some ''5'')]), None) \<and>
   decode_rows sample_ParseFloat sample_Unmarshal [(Some ''minzoom'', Some ''5'')] ([], [])
       (Some Map.empty) = Returns (Inr (Some [''minzoom'' \<mapsto> IntItem 5])) \<and>
   zoom_range \<lparr>db_closed = False,
               db_file = Readable (sample_database\<lparr>metadata_table := [(Some ''minzoom'', Some ''5'')]\<rparr>)\<rparr>
     = Inr (3, 9) \<and>
   ReadMetadata sample_ParseFloat sample_Unmarshal (Some (handle_with [(Some ''minzoom'', Some ''5'')])) =
     Returns (Some [''minzoom'' \<mapsto> IntItem 3, ''maxzoom'' \<mapsto> IntItem 9], None)"
  by (simp add: Open_handle_with ReadMetadata_handle_with Scan_row_def decode_item_def supplement_def
      has_key_def zoom_range_sample Atoi_def)

section \<open>Decoding the metadata rows\<close>

subsection \<open>Lists of floats\<close>

lemma parseFloats_loop_all:
  assumes "list_all2 (\<lambda>v x. ParseFloat (TrimSpace v) = Inr x) split xs"
  shows "parseFloats_loop ParseFloat str split out = (out @ xs, None)"
  using assms
proof (induction split arbitrary: out xs)
  case Nil
  then show ?case by simp
next
  case (Cons v split)
  then obtain x xs' where "xs = x # xs'" "ParseFloat (TrimSpace v) = Inr x"
    "list_all2 (\<lambda>v x. ParseFloat (TrimSpace v) = Inr x) split xs'"
    by (auto simp: list_all2_Cons1)
  with Cons.IH [of xs' "out @ [x]"] show ?case by simp
qed

lemma parseFloats_loop_fails:
  assumes "\<exists>v \<in> set split. \<exists>e. ParseFloat (TrimSpace v) = Inl e"
  shows "snd (parseFloats_loop ParseFloat str split out) = Some (ParseFloatsError str)"
  using assms
proof (induction split arbitrary: out)
  case Nil
  then show ?case by simp
next
  case (Cons v split)
  show ?case
  proof (cases "ParseFloat (TrimSpace v)")
    case (Inl e)
    then show ?thesis by simp
  next
    case (Inr x)
    with Cons.prems have "\<exists>v \<in> set split. \<exists>e. ParseFloat (TrimSpace v) = Inl e" by auto
    from Cons.IH [OF this] Inr show ?thesis by simp
  qed
qed

lemma Split_example:
  "map TrimSpace (Split ''-1.5, 2.25,10,-3'' CHR '','') = [''-1.5'', ''2.25'', ''10'', ''-3'']"
  by (simp add: TrimSpace_def rune_width_def space_runes_def)

subsection \<open>The loop over the rows\<close>

text \<open>The errors that decoding returns are those of lines 171, 176 and 181.\<close>

lemma decode_item_errors:
  assumes "decode_item pf um key val metadata = Returns (Inl err)"
  shows "err = JSONMetadata \<or> err = MetadataItem key"
  using assms
  by (auto simp: decode_item_def split: if_splits option.splits sum.splits prod.splits
      document.splits)

lemma decode_rows_errors:
  assumes "decode_rows pf um rows kv metadata = Returns (Inl err)"
  shows "err = JSONMetadata \<or> (\<exists>key. err = MetadataItem key)"
  using assms
proof (induction rows arbitrary: kv metadata)
  case Nil
  then show ?case by simp
next
  case (Cons r rows)
  then show ?case
    by (auto split: outcome.splits sum.splits dest: decode_item_errors)
qed

text \<open>
  A row with key \<^verbatim>\<open>bounds\<close> or \<^verbatim>\<open>center\<close> and a field that does not parse ends the
  loop: with the error of line 176, or with a panic when an earlier row has made the
  map nil.
\<close>

lemma decode_item_floats_fail:
  assumes "key = ''bounds'' \<or> key = ''center''"
    and "\<exists>v \<in> set (Split str CHR '',''). \<exists>e. pf (TrimSpace v) = Inl e"
  shows "decode_item pf um key str metadata =
           (case metadata of None \<Rightarrow> Panics NilMapAssignment
            | Some m \<Rightarrow> Returns (Inl (MetadataItem key)))"
proof -
  from parseFloats_loop_fails [OF assms(2), of str "[]"]
  obtain out where "parseFloats pf str = (out, Some (ParseFloatsError str))"
    by (cases "parseFloats pf str") (simp add: parseFloats_def)
  with assms(1) show ?thesis
    by (auto simp: decode_item_def split: option.splits)
qed

lemma decode_rows_floats_fail:
  assumes "(Some key, Some str) \<in> set rows"
    and "key = ''bounds'' \<or> key = ''center''"
    and "\<exists>v \<in> set (Split str CHR '',''). \<exists>e. pf (TrimSpace v) = Inl e"
  shows "decode_rows pf um rows kv metadata \<noteq> Returns (Inr result)"
  using assms(1)
proof (induction rows arbitrary: kv metadata)
  case Nil
  then show ?case by simp
next
  case (Cons r rows)
  show ?case
  proof (cases "r = (Some key, Some str)")
    case True
    then show ?thesis
      by (simp add: Scan_row_def decode_item_floats_fail [OF assms(2,3)] split: option.splits)
  next
    case False
    with Cons.prems have "(Some key, Some str) \<in> set rows" by simp
    from Cons.IH [OF this] show ?thesis
      by (simp split: outcome.splits sum.splits)
  qed
qed

text \<open>
  The map is nil only after \<^verbatim>\<open>json.Unmarshal\<close> has read \<^verbatim>\<open>null\<close>. When no value of
  the table is such a text, the loop does not panic.
\<close>


lemma decode_item_no_panic:
  assumes "um val \<noteq> JSONNull"
  shows "(\<exists>err. decode_item pf um key val (Some m) = Returns (Inl err)) \<or>
         (\<exists>m'. decode_item pf um key val (Some m) = Returns (Inr (Some m')))"
  using assms
  by (auto simp: decode_item_def split: sum.splits prod.splits option.splits document.splits)

lemma decode_rows_no_panic:
  assumes "list_all (\<lambda>r. case snd r of None \<Rightarrow> True | Some s \<Rightarrow> um s \<noteq> JSONNull) rows"
    and "um (snd kv) \<noteq> JSONNull"
  shows "decode_rows pf um rows kv (Some m) \<noteq> Panics p"
  using assms
proof (induction rows arbitrary: kv m)
  case Nil
  then show ?case by simp
next
  case (Cons r rows)
  let ?kv = "fst (Scan_row r kv)"
  from Cons.prems have v: "um (snd ?kv) \<noteq> JSONNull"
    by (auto simp: Scan_row_def split: option.splits)
  from Cons.prems have rest:
    "list_all (\<lambda>r. case snd r of None \<Rightarrow> True | Some s \<Rightarrow> um s \<noteq> JSONNull) rows"
    by simp
  from decode_item_no_panic [of um "snd ?kv" pf "fst ?kv" m] v
  have "(\<exists>err. decode_item pf um (fst ?kv) (snd ?kv) (Some m) = Returns (Inl err)) \<or>
        (\<exists>m'. decode_item pf um (fst ?kv) (snd ?kv) (Some m) = Returns (Inr (Some m')))"
    by simp
  then show ?case
  proof (elim disjE exE)
    fix err
    assume "decode_item pf um (fst ?kv) (snd ?kv) (Some m) = Returns (Inl err)"
    then show ?thesis by simp
  next
    fix m'
    assume "decode_item pf um (fst ?kv) (snd ?kv) (Some m) = Returns (Inr (Some m'))"
    with Cons.IH [OF rest v, of m'] show ?thesis by simp
  qed
qed


lemma decode_item_panics:
  assumes "decode_item pf um key val metadata = Panics p"
  shows "p = NilMapAssignment"
  using assms
  by (auto simp: decode_item_def split: if_splits option.splits sum.splits prod.splits
      document.splits)

lemma decode_rows_panics:
  assumes "decode_rows pf um rows kv metadata = Panics p"
  shows "p = NilMapAssignment"
  using assms
proof (induction rows arbitrary: kv metadata)
  case Nil
  then show ?case by simp
next
  case (Cons r rows)
  then show ?case
    by (auto split: outcome.splits sum.splits dest: decode_item_panics)
qed

lemma ReadMetadata_floats_fail:
  assumes "pool h = Some con" and "metadata_rows con = Inr rows"
    and "(Some key, Some str) \<in> set rows"
    and "key = ''bounds'' \<or> key = ''center''"
    and "\<exists>v \<in> set (Split str CHR '',''). \<exists>e. pf (TrimSpace v) = Inl e"
  shows "(\<exists>err. ReadMetadata pf um (Some h) = Returns (None, Some err)) \<or>
         ReadMetadata pf um (Some h) = Panics NilMapAssignment"
proof (cases "decode_rows pf um rows ([], []) (Some Map.empty)")
  case (Panics p)
  with decode_rows_panics [OF Panics] assms(1,2) show ?thesis
    by (simp add: ReadMetadata_def)
next
  case (Returns r)
  with decode_rows_floats_fail [OF assms(3,4,5), of um "([], [])" "Some Map.empty"]
  obtain err where "r = Inl err" by (cases r) auto
  with Returns assms(1,2) show ?thesis
    by (simp add: ReadMetadata_def)
qed

lemma ReadMetadata_floats_fail_error:
  assumes "pool h = Some con" and "metadata_rows con = Inr rows"
    and "(Some key, Some str) \<in> set rows"
    and "key = ''bounds'' \<or> key = ''center''"
    and "\<exists>v \<in> set (Split str CHR '',''). \<exists>e. pf (TrimSpace v) = Inl e"
    and "no_null um rows"
  shows "\<exists>err. ReadMetadata pf um (Some h) = Returns (None, Some err)"
proof (cases "decode_rows pf um rows ([], []) (Some Map.empty)")
  case (Panics p)
  moreover from assms(6) have "decode_rows pf um rows ([], []) (Some Map.empty) \<noteq> Panics p"
    by (intro decode_rows_no_panic) (simp_all add: no_null_def)
  ultimately show ?thesis by simp
next
  case (Returns r)
  with decode_rows_floats_fail [OF assms(3,4,5), of um "([], [])" "Some Map.empty"]
  obtain err where "r = Inl err" by (cases r) auto
  with Returns assms(1,2) show ?thesis
    by (simp add: ReadMetadata_def)
qed

text \<open>
  With \<open>ParseFloat\<close> standing for \<^verbatim>\<open>strconv.ParseFloat\<close>: the text
  \<^verbatim>\<open>-1.5, 2.25,10,-3\<close> decodes to the values of \<^verbatim>\<open>-1.5\<close>, \<^verbatim>\<open>2.25\<close>, \<^verbatim>\<open>10\<close> and
  \<^verbatim>\<open>-3\<close>, in this order. In general, when every field between the commas parses
  after trimming, \<^verbatim>\<open>parseFloats\<close> returns their values in the order of the fields and
  a row with key \<^verbatim>\<open>bounds\<close> or \<^verbatim>\<open>center\<close> stores that list under its key, in a map
  that is not nil. When a field does not parse, \<^verbatim>\<open>parseFloats\<close> returns an error, and
  \<^verbatim>\<open>ReadMetadata\<close> on a table with such a row under \<^verbatim>\<open>bounds\<close> or \<^verbatim>\<open>center\<close> returns
  an error and no map, unless an earlier \<^verbatim>\<open>json\<close> row was \<^verbatim>\<open>null\<close>: then the
  assignment of line 174 panics on the nil map.
\<close>

lemma parseFloats_fields:
  "(ParseFloat ''-1.5'' = Inr a \<and> ParseFloat ''2.25'' = Inr b \<and> ParseFloat ''10'' = Inr c \<and>
    ParseFloat ''-3'' = Inr d \<longrightarrow>
      parseFloats ParseFloat ''-1.5, 2.25,10,-3'' = ([a, b, c, d], None)) \<and>
   (list_all2 (\<lambda>v x. ParseFloat (TrimSpace v) = Inr x) (Split str CHR '','') xs \<longrightarrow>
      parseFloats ParseFloat str = (xs, None) \<and>
      (key = ''bounds'' \<or> key = ''center'' \<longrightarrow>
         decode_item ParseFloat Unmarshal key str (Some m) =
           Returns (Inr (Some (m(key \<mapsto> FloatsItem xs)))))) \<and>
   ((\<exists>v \<in> set (Split str CHR '',''). \<exists>e. ParseFloat (TrimSpace v) = Inl e) \<longrightarrow>
      snd (parseFloats ParseFloat str) = Some (ParseFloatsError str) \<and>
      (pool h = Some con \<and> metadata_rows con = Inr rows \<and> (Some key, Some str) \<in> set rows \<and>
       (key = ''bounds'' \<or> key = ''center'') \<longrightarrow>
         ((\<exists>err. ReadMetadata ParseFloat Unmarshal (Some h) = Returns (None, Some err)) \<or>
          ReadMetadata ParseFloat Unmarshal (Some h) = Panics NilMapAssignment) \<and>
         (no_null Unmarshal rows \<longrightarrow>
            (\<exists>err. ReadMetadata ParseFloat Unmarshal (Some h) = Returns (None, Some err)))))"
proof (intro conjI impI)
  assume "ParseFloat ''-1.5'' = Inr a \<and> ParseFloat ''2.25'' = Inr b \<and> ParseFloat ''10'' = Inr c \<and>
    ParseFloat ''-3'' = Inr d"
  then show "parseFloats ParseFloat ''-1.5, 2.25,10,-3'' = ([a, b, c, d], None)"
    by (simp add: parseFloats_def TrimSpace_def rune_width_def space_runes_def)
next
  assume all: "list_all2 (\<lambda>v x. ParseFloat (TrimSpace v) = Inr x) (Split str CHR '','') xs"
  from parseFloats_loop_all [OF all, of str "[]"]
  show ok: "parseFloats ParseFloat str = (xs, None)"
    by (simp add: parseFloats_def)
  assume "key = ''bounds'' \<or> key = ''center''"
  with ok show "decode_item ParseFloat Unmarshal key str (Some m) =
           Returns (Inr (Some (m(key \<mapsto> FloatsItem xs))))"
    by (auto simp: decode_item_def)
next
  assume bad: "\<exists>v \<in> set (Split str CHR '',''). \<exists>e. ParseFloat (TrimSpace v) = Inl e"
  from parseFloats_loop_fails [OF bad, of str "[]"]
  show "snd (parseFloats ParseFloat str) = Some (ParseFloatsError str)"
    by (simp add: parseFloats_def)
  assume row: "pool h = Some con \<and> metadata_rows con = Inr rows \<and>
       (Some key, Some str) \<in> set rows \<and> (key = ''bounds'' \<or> key = ''center'')"
  with bad show "(\<exists>err. ReadMetadata ParseFloat Unmarshal (Some h) = Returns (None, Some err)) \<or>
          ReadMetadata ParseFloat Unmarshal (Some h) = Panics NilMapAssignment"
    by (intro ReadMetadata_floats_fail [of h con rows key str]) simp_all
  assume "no_null Unmarshal rows"
  with bad row show "\<exists>err. ReadMetadata ParseFloat Unmarshal (Some h) = Returns (None, Some err)"
    by (intro ReadMetadata_floats_fail_error [of h con rows key str]) simp_all
qed

lemma parseFloats_fields_sample:
  "parseFloats sample_ParseFloat ''-1.5, 2.25,10,-3'' = ([-1.5, 2.25, 10, -3], None) \<and>
   decode_item sample_ParseFloat sample_Unmarshal ''bounds'' ''-1.5, 2.25,10,-3'' (Some Map.empty) =
     Returns (Inr (Some [''bounds'' \<mapsto> FloatsItem [-1.5, 2.25, 10, -3]])) \<and>
   parseFloats sample_ParseFloat ''-1.5, north'' = ([-1.5], Some (ParseFloatsError ''-1.5, north'')) \<and>
   no_null sample_Unmarshal [(Some ''bounds'', Some ''-1.5, north'')] \<and>
   ReadMetadata sample_ParseFloat sample_Unmarshal
       (Some (handle_with [(Some ''bounds'', Some ''-1.5, north'')])) =
     Returns (None, Some (MetadataItem ''bounds''))"
  using
    parseFloats_fields [of sample_ParseFloat "-1.5" "2.25" 10 "-3" "''-1.5, 2.25,10,-3''"
      "[-1.5, 2.25, 10, -3]" "''bounds''" sample_Unmarshal Map.empty
      "handle_with [(Some ''bounds'', Some ''-1.5, north'')]"
      "\<lparr>db_closed = False, db_file = Readable (sample_database
               \<lparr>metadata_table := [(Some ''bounds'', Some ''-1.5, north'')]\<rparr>)\<rparr>"
      "[(Some ''bounds'', Some ''-1.5, north'')]"]
    parseFloats_fields [of sample_ParseFloat "-1.5" "2.25" 10 "-3" "''-1.5, north''" "[]"
      "''bounds''" sample_Unmarshal Map.empty
      "handle_with [(Some ''bounds'', Some ''-1.5, north'')]"
      "\<lparr>db_closed = False, db_file = Readable (sample_database
               \<lparr>metadata_table := [(Some ''bounds'', Some ''-1.5, north'')]\<rparr>)\<rparr>"
      "[(Some ''bounds'', Some ''-1.5, north'')]"]
  by (simp add: sample_ParseFloat_def no_null_def sample_Unmarshal_def)
    (simp add: ReadMetadata_handle_with Scan_row_def decode_item_def parseFloats_def
      TrimSpace_def rune_width_def space_runes_def sample_ParseFloat_def)

section \<open>Rows that do not scan\<close>

text \<open>The error of \<^verbatim>\<open>rows.Scan\<close> is never what \<^verbatim>\<open>ReadMetadata\<close> returns.\<close>

lemma ReadMetadata_no_scan_error:
  "ReadMetadata pf um db \<noteq> Returns (m, Some ScanNull)"
proof (cases db)
  case None
  then show ?thesis by (simp add: ReadMetadata_def)
next
  case (Some h)
  show ?thesis
  proof (cases "pool h")
    case None
    with Some show ?thesis by (simp add: ReadMetadata_def)
  next
    case (Some con)
    have rows: "metadata_rows con \<noteq> Inl ScanNull"
      by (auto simp: metadata_rows_def on_database_def split: dbfile.splits)
    have sup: "supplement con md \<noteq> Returns (m, Some ScanNull)" for md
      by (auto simp: supplement_def split: sum.splits option.splits prod.splits)
    show ?thesis
      using \<open>db = Some h\<close> Some rows sup
      by (auto simp: ReadMetadata_def split: sum.splits outcome.splits
          dest: decode_rows_errors)
  qed
qed

text \<open>The loop sees of a row only what the scan leaves in \<^verbatim>\<open>key\<close> and \<^verbatim>\<open>value\<close>.\<close>

lemma decode_rows_scanned:
  assumes "fst (Scan_row r kv) = fst (Scan_row r' kv)"
  shows "decode_rows pf um (r # rows) kv metadata = decode_rows pf um (r' # rows) kv metadata"
  using assms by (simp split: outcome.splits sum.splits)

lemma handle_with_on: "handle_with rows = handle_on (sample_database\<lparr>metadata_table := rows\<rparr>)"
  by (simp add: handle_with_def handle_on_def)

lemma decode_rows_append:
  "decode_rows pf um (rows @ rows') kv metadata =
     (case decode_rows pf um rows kv metadata of
        Returns (Inr metadata') \<Rightarrow> decode_rows pf um rows' (scan_state rows kv) metadata'
      | Returns (Inl err) \<Rightarrow> Returns (Inl err)
      | Panics p \<Rightarrow> Panics p)"
  by (induction rows arbitrary: kv metadata) (auto split: outcome.splits sum.splits)

text \<open>
  Decoding the same key and value a second time succeeds, and leaves a map when there
  was one.
\<close>

lemma decode_item_again:
  assumes "decode_item pf um key val metadata = Returns (Inr metadata')"
  shows "decodes_again pf um (key, val) metadata'"
  using assms
  by (auto simp: decodes_again_def decode_item_def
      split: if_splits option.splits sum.splits prod.splits document.splits)

lemma decodes_again_initial: "decodes_again pf um ([], []) (Some Map.empty)"
  by (simp add: decodes_again_def decode_item_def)

lemma decodes_again_rows:
  assumes "decodes_again pf um kv metadata"
    and "decode_rows pf um rows kv metadata = Returns (Inr metadata')"
  shows "decodes_again pf um (scan_state rows kv) metadata'"
  using assms
proof (induction rows arbitrary: kv metadata)
  case Nil
  then show ?case by simp
next
  case (Cons r rows)
  let ?kv = "fst (Scan_row r kv)"
  from Cons.prems(2) obtain m1 where
    step: "decode_item pf um (fst ?kv) (snd ?kv) metadata = Returns (Inr m1)"
    and rest: "decode_rows pf um rows ?kv m1 = Returns (Inr metadata')"
    by (auto split: outcome.splits sum.splits)
  from decode_item_again [OF step] have "decodes_again pf um ?kv m1"
    by simp
  from Cons.IH [OF this rest] show ?case by simp
qed

text \<open>
  A row whose key does not convert, after rows that were decoded: the row is decoded
  too, and the map is nil afterwards only when it was nil before.
\<close>

lemma key_null_decodes:
  assumes "decode_rows pf um pre ([], []) (Some Map.empty) = Returns (Inr md)"
  shows "\<exists>md'. decode_rows pf um (pre @ [(None, c)]) ([], []) (Some Map.empty) = Returns (Inr md') \<and>
           (md' = None \<longrightarrow> md = None)"
proof -
  from decodes_again_rows [OF decodes_again_initial assms]
  obtain md' where "decode_item pf um (fst (scan_state pre ([], []))) (snd (scan_state pre ([], []))) md =
      Returns (Inr md')" and "md' = None \<longrightarrow> md = None"
    by (auto simp: decodes_again_def split: outcome.splits sum.splits)
  with assms show ?thesis
    by (simp add: decode_rows_append Scan_row_def)
qed

subsection \<open>The call as a whole\<close>

lemma relation_exists_metadata_update:
  "relation_exists (d\<lparr>metadata_table := rows\<rparr>) n = relation_exists d n"
  by (simp add: relation_exists_def)

lemma supplement_metadata_update:
  "supplement \<lparr>db_closed = False, db_file = Readable (d\<lparr>metadata_table := rows\<rparr>)\<rparr> md =
   supplement \<lparr>db_closed = False, db_file = Readable d\<rparr> md"
  by (simp add: supplement_def zoom_range_def on_database_def zoom_levels_def
      relation_exists_metadata_update)

lemma supplement_outcomes:
  "(\<exists>md'. supplement con md = Returns (md', None)) \<or>
   (md = None \<and> supplement con md = Panics NilMapAssignment)"
  by (auto simp: supplement_def split: sum.splits option.splits prod.splits)

lemma ReadMetadata_handle_on:
  "ReadMetadata pf um (Some (handle_on (d\<lparr>metadata_table := rows\<rparr>))) =
     (if \<not> relation_exists d ''metadata'' then Returns (None, Some (NoSuchTable ''metadata''))
      else case decode_rows pf um (filter (\<lambda>(k, v). v \<noteq> Some []) rows) ([], []) (Some Map.empty) of
             Panics p \<Rightarrow> Panics p
           | Returns (Inl err) \<Rightarrow> Returns (None, Some err)
           | Returns (Inr md) \<Rightarrow> supplement \<lparr>db_closed = False, db_file = Readable d\<rparr> md)"
  by (simp add: ReadMetadata_def handle_on_def metadata_rows_def on_database_def
      relation_exists_metadata_update supplement_metadata_update
      split: outcome.splits sum.splits)

lemma decode_rows_after:
  assumes "fst (Scan_row r (key, val)) = fst (Scan_row r' (key, val))"
  shows "decode_rows pf um ((Some key, Some val) # r # rows) kv metadata =
         decode_rows pf um ((Some key, Some val) # r' # rows) kv metadata"
proof -
  have s: "fst (Scan_row (Some key, Some val) kv) = (key, val)"
    by (simp add: Scan_row_def)
  have "decode_rows pf um (r # rows) (key, val) m = decode_rows pf um (r' # rows) (key, val) m" for m
    using assms by (rule decode_rows_scanned)
  then show ?thesis
    unfolding decode_rows.simps(2) [of pf um "(Some key, Some val)"] s
    by (simp split: outcome.splits sum.splits)
qed

text \<open>
  Claim C10, as the code has it. \<^verbatim>\<open>ReadMetadata\<close> drops the result of
  \<^verbatim>\<open>rows.Scan\<close>, and the scan error is never returned. A row whose key cell does not
  convert is decoded with the key and the value of the row before it: the call returns
  what it returns when that row stands there twice. A row whose key converts and whose
  value cell does not is decoded as its own key with the value of the row before it. In
  the first row, what is left over is the empty string. A row whose key does not
  convert never makes the call fail: after rows that were decoded, the loop decodes it
  and goes on to the next row, and when the call succeeds on a table, it succeeds on the
  table with such a row added at its end. (The rows are those the query returns: a
  row whose value is the empty string is not among them.)
\<close>

theorem scan_failures:
  "(\<forall>md. ReadMetadata ParseFloat Unmarshal db \<noteq> Returns (md, Some ScanNull)) \<and>
   (val \<noteq> [] \<and> c \<noteq> Some [] \<longrightarrow>
      ReadMetadata ParseFloat Unmarshal
          (Some (handle_on (d\<lparr>metadata_table := (Some key, Some val) # (None, c) # rows\<rparr>))) =
      ReadMetadata ParseFloat Unmarshal
          (Some (handle_on (d\<lparr>metadata_table := (Some key, Some val) # (Some key, Some val) # rows\<rparr>)))) \<and>
   (val \<noteq> [] \<longrightarrow>
      ReadMetadata ParseFloat Unmarshal
          (Some (handle_on (d\<lparr>metadata_table := (Some key, Some val) # (Some k, None) # rows\<rparr>))) =
      ReadMetadata ParseFloat Unmarshal
          (Some (handle_on (d\<lparr>metadata_table := (Some key, Some val) # (Some k, Some val) # rows\<rparr>)))) \<and>
   decode_rows ParseFloat Unmarshal ((None, c) # rows) ([], []) (Some Map.empty) =
     decode_rows ParseFloat Unmarshal rows ([], []) (Some [[] \<mapsto> StringItem []]) \<and>
   decode_rows ParseFloat Unmarshal ((Some k, None) # rows) ([], []) (Some Map.empty) =
     decode_rows ParseFloat Unmarshal ((Some k, Some []) # rows) ([], []) (Some Map.empty) \<and>
   (decode_rows ParseFloat Unmarshal pre ([], []) (Some Map.empty) = Returns (Inr mda) \<longrightarrow>
      (\<exists>mdb. decode_rows ParseFloat Unmarshal (pre @ (None, c) # post) ([], []) (Some Map.empty) =
               decode_rows ParseFloat Unmarshal post (scan_state pre ([], [])) mdb)) \<and>
   (ReadMetadata ParseFloat Unmarshal (Some (handle_on (d\<lparr>metadata_table := pre\<rparr>))) = Returns (md, None) \<longrightarrow>
      (\<exists>md'. ReadMetadata ParseFloat Unmarshal
                 (Some (handle_on (d\<lparr>metadata_table := pre @ [(None, c)]\<rparr>))) = Returns (md', None)))"
proof (intro conjI allI impI)
  show "ReadMetadata ParseFloat Unmarshal db \<noteq> Returns (md, Some ScanNull)" for md
    by (rule ReadMetadata_no_scan_error)
next
  assume "val \<noteq> [] \<and> c \<noteq> Some []"
  then show "ReadMetadata ParseFloat Unmarshal
          (Some (handle_on (d\<lparr>metadata_table := (Some key, Some val) # (None, c) # rows\<rparr>))) =
      ReadMetadata ParseFloat Unmarshal
          (Some (handle_on (d\<lparr>metadata_table := (Some key, Some val) # (Some key, Some val) # rows\<rparr>)))"
    by (simp only: ReadMetadata_handle_on)
      (simp add: decode_rows_after [of "(None, c)" key val "(Some key, Some val)"] Scan_row_def
        del: decode_rows.simps)
next
  assume "val \<noteq> []"
  then show "ReadMetadata ParseFloat Unmarshal
          (Some (handle_on (d\<lparr>metadata_table := (Some key, Some val) # (Some k, None) # rows\<rparr>))) =
      ReadMetadata ParseFloat Unmarshal
          (Some (handle_on (d\<lparr>metadata_table := (Some key, Some val) # (Some k, Some val) # rows\<rparr>)))"
    by (simp only: ReadMetadata_handle_on)
      (simp add: decode_rows_after [of "(Some k, None)" key val "(Some k, Some val)"] Scan_row_def
        del: decode_rows.simps)
next
  show "decode_rows ParseFloat Unmarshal ((None, c) # rows) ([], []) (Some Map.empty) =
     decode_rows ParseFloat Unmarshal rows ([], []) (Some [[] \<mapsto> StringItem []])"
    by (simp add: Scan_row_def decode_item_def)
next
  show "decode_rows ParseFloat Unmarshal ((Some k, None) # rows) ([], []) (Some Map.empty) =
     decode_rows ParseFloat Unmarshal ((Some k, Some []) # rows) ([], []) (Some Map.empty)"
    by (rule decode_rows_scanned) (simp add: Scan_row_def)
next
  assume dec: "decode_rows ParseFloat Unmarshal pre ([], []) (Some Map.empty) = Returns (Inr mda)"
  from decodes_again_rows [OF decodes_again_initial dec]
  obtain mdb where "decode_item ParseFloat Unmarshal (fst (scan_state pre ([], [])))
      (snd (scan_state pre ([], []))) mda = Returns (Inr mdb)"
    by (auto simp: decodes_again_def split: outcome.splits sum.splits)
  with dec have "decode_rows ParseFloat Unmarshal (pre @ (None, c) # post) ([], []) (Some Map.empty) =
      decode_rows ParseFloat Unmarshal post (scan_state pre ([], [])) mdb"
    by (simp add: decode_rows_append Scan_row_def)
  then show "\<exists>mdb. decode_rows ParseFloat Unmarshal (pre @ (None, c) # post) ([], []) (Some Map.empty) =
               decode_rows ParseFloat Unmarshal post (scan_state pre ([], [])) mdb"
    by blast
next
  let ?con = "\<lparr>db_closed = False, db_file = Readable d\<rparr>"
  let ?keep = "filter (\<lambda>(k, v). v \<noteq> Some [])"
  assume ok: "ReadMetadata ParseFloat Unmarshal (Some (handle_on (d\<lparr>metadata_table := pre\<rparr>))) =
      Returns (md, None)"
  then have rel: "relation_exists d ''metadata''"
    by (auto simp: ReadMetadata_handle_on split: if_splits)
  with ok obtain m1 where
    dec: "decode_rows ParseFloat Unmarshal (?keep pre) ([], []) (Some Map.empty) = Returns (Inr m1)"
    and sup: "supplement ?con m1 = Returns (md, None)"
    by (auto simp: ReadMetadata_handle_on split: outcome.splits sum.splits)
  show "\<exists>md'. ReadMetadata ParseFloat Unmarshal
                 (Some (handle_on (d\<lparr>metadata_table := pre @ [(None, c)]\<rparr>))) = Returns (md', None)"
  proof (cases "c = Some []")
    case True
    with rel dec sup show ?thesis
      by (simp add: ReadMetadata_handle_on)
  next
    case False
    from key_null_decodes [OF dec, of c] obtain m2 where
      dec2: "decode_rows ParseFloat Unmarshal (?keep pre @ [(None, c)]) ([], []) (Some Map.empty) =
               Returns (Inr m2)"
      and nil: "m2 = None \<longrightarrow> m1 = None"
      by auto
    from supplement_outcomes [of ?con m2] have "\<exists>md'. supplement ?con m2 = Returns (md', None)"
    proof
      assume "m2 = None \<and> supplement ?con m2 = Panics NilMapAssignment"
      with nil sup show ?thesis by simp
    qed simp
    with rel dec2 False show ?thesis
      by (simp add: ReadMetadata_handle_on)
  qed
qed

theorem scan_failures_witness:
  "ReadMetadata sample_ParseFloat sample_Unmarshal
       (Some (handle_on (sample_database
          \<lparr>metadata_table := [(Some ''name'', Some ''hello''), (None, Some ''x'')]\<rparr>))) =
     Returns (Some [''name'' \<mapsto> StringItem ''hello'', ''minzoom'' \<mapsto> IntItem 3,
                    ''maxzoom'' \<mapsto> IntItem 9], None) \<and>
   ReadMetadata sample_ParseFloat sample_Unmarshal
       (Some (handle_on (sample_database
          \<lparr>metadata_table := [(Some ''name'', Some ''hello''), (Some ''attribution'', None)]\<rparr>))) =
     Returns (Some [''name'' \<mapsto> StringItem ''hello'', ''attribution'' \<mapsto> StringItem ''hello'',
                    ''minzoom'' \<mapsto> IntItem 3, ''maxzoom'' \<mapsto> IntItem 9], None) \<and>
   ReadMetadata sample_ParseFloat sample_Unmarshal
       (Some (handle_on (sample_database\<lparr>metadata_table := [(None, Some ''x'')]\<rparr>))) =
     Returns (Some [[] \<mapsto> StringItem [], ''minzoom'' \<mapsto> IntItem 3,
                    ''maxzoom'' \<mapsto> IntItem 9], None)"
  using
    scan_failures [where ParseFloat = sample_ParseFloat and Unmarshal = sample_Unmarshal
      and db = "Some (handle_on sample_database)" and d = sample_database
      and key = "''name''" and val = "''hello''" and c = "Some ''x''" and rows = "[]"
      and k = "''attribution''" and pre = "[(Some ''name'', Some ''hello'')]"
      and post = "[]" and mda = "Some [''name'' \<mapsto> StringItem ''hello'']"
      and md = "Some [''name'' \<mapsto> StringItem ''hello'', ''minzoom'' \<mapsto> IntItem 3,
                      ''maxzoom'' \<mapsto> IntItem 9]"]
    scan_failures [where ParseFloat = sample_ParseFloat and Unmarshal = sample_Unmarshal
      and db = "Some (handle_on sample_database)" and d = sample_database
      and key = "''name''" and val = "''hello''" and c = "Some ''x''" and rows = "[]"
      and k = "''attribution''" and pre = "[]"
      and post = "[]" and mda = "Some Map.empty"
      and md = "Some [''minzoom'' \<mapsto> IntItem 3, ''maxzoom'' \<mapsto> IntItem 9]"]
  by (simp add: handle_with_on [symmetric] ReadMetadata_handle_with Scan_row_def decode_item_def
      supplement_def has_key_def zoom_range_sample)

text \<open>
  Claim C10 as stated (a row whose scan fails never makes the call return an error and
  is decoded with the key and the value of the previous row) fails for a row whose
  value is NULL. After \<^verbatim>\<open>(name, hello)\<close>, the row \<^verbatim>\<open>(attribution, NULL)\<close> is decoded as
  \<^verbatim>\<open>attribution = hello\<close>, not as a second \<^verbatim>\<open>name = hello\<close>; and the row
  \<^verbatim>\<open>(minzoom, NULL)\<close> is decoded as \<^verbatim>\<open>minzoom = hello\<close>, which makes the call return
  the error of line 171.
\<close>

theorem scan_failure_counterexample:
  "Open (world_with (sample_database
          \<lparr>metadata_table := [(Some ''name'', Some ''hello''), (Some ''attribution'', None)]\<rparr>))
       detectTileFormat no_size ''tilesets/bar.mbtiles'' =
     (Some (handle_with [(Some ''name'', Some ''hello''), (Some ''attribution'', None)]), None) \<and>
   ReadMetadata sample_ParseFloat sample_Unmarshal
       (Some (handle_with [(Some ''name'', Some ''hello''), (Some ''attribution'', None)])) =
     Returns (Some [''name'' \<mapsto> StringItem ''hello'', ''attribution'' \<mapsto> StringItem ''hello'',
                    ''minzoom'' \<mapsto> IntItem 3, ''maxzoom'' \<mapsto> IntItem 9], None) \<and>
   ReadMetadata sample_ParseFloat sample_Unmarshal
       (Some (handle_with [(Some ''name'', Some ''hello''), (Some ''name'', Some ''hello'')])) =
     Returns (Some [''name'' \<mapsto> StringItem ''hello'', ''minzoom'' \<mapsto> IntItem 3,
                    ''maxzoom'' \<mapsto> IntItem 9], None) \<and>
   ReadMetadata sample_ParseFloat sample_Unmarshal
       (Some (handle_with [(Some ''name'', Some ''hello''), (Some ''minzoom'', None)])) =
     Returns (None, Some (MetadataItem ''minzoom''))"
  by (simp add: Open_handle_with ReadMetadata_handle_with Scan_row_def decode_item_def supplement_def
      has_key_def zoom_range_sample Atoi_def)

section \<open>The nil map\<close>

text \<open>
  After a \<^verbatim>\<open>json\<close> row with the text \<^verbatim>\<open>null\<close> the map is nil, and the assignment of
  line 174 panics for the next \<^verbatim>\<open>bounds\<close> row, whatever its value.
\<close>

lemma nil_map_panics:
  assumes "um s = JSONNull" and "s \<noteq> []"
  shows "ReadMetadata pf um (Some (handle_with [(Some ''json'', Some s), (Some ''bounds'', Some v)]))
           = Panics NilMapAssignment"
  using assms
  by (cases "v = []")
    (simp_all add: ReadMetadata_handle_with Scan_row_def decode_item_def supplement_def
      has_key_def zoom_range_sample)

text \<open>
  Claim C9 (a \<^verbatim>\<open>bounds\<close> or \<^verbatim>\<open>center\<close> value decodes to the list of its fields, and a
  field that does not parse makes the call fail with an error). A metadata table with
  the rows \<^verbatim>\<open>(json, null)\<close> and \<^verbatim>\<open>(bounds, "-1.5, north")\<close>: \<^verbatim>\<open>parseFloats\<close> returns
  its error for the second value, but \<^verbatim>\<open>ReadMetadata\<close> panics at line 174 before line
  175 looks at it, and returns no error. With the value \<^verbatim>\<open>-1.5, 2.25,10,-3\<close> in the
  second row, \<^verbatim>\<open>parseFloats\<close> returns the four floats and the call panics as well.
\<close>

theorem bounds_after_json_null:
  "Open (world_with (sample_database
          \<lparr>metadata_table := [(Some ''json'', Some ''null''), (Some ''bounds'', Some ''-1.5, north'')]\<rparr>))
       detectTileFormat no_size ''tilesets/bar.mbtiles'' =
     (Some (handle_with [(Some ''json'', Some ''null''), (Some ''bounds'', Some ''-1.5, north'')]), None) \<and>
   parseFloats sample_ParseFloat ''-1.5, north'' = ([-1.5], Some (ParseFloatsError ''-1.5, north'')) \<and>
   ReadMetadata sample_ParseFloat sample_Unmarshal
       (Some (handle_with [(Some ''json'', Some ''null''), (Some ''bounds'', Some ''-1.5, north'')])) =
     Panics NilMapAssignment \<and>
   parseFloats sample_ParseFloat ''-1.5, 2.25,10,-3'' = ([-1.5, 2.25, 10, -3], None) \<and>
   ReadMetadata sample_ParseFloat sample_Unmarshal
       (Some (handle_with [(Some ''json'', Some ''null''), (Some ''bounds'', Some ''-1.5, 2.25,10,-3'')])) =
     Panics NilMapAssignment"
  by (simp add: Open_handle_with nil_map_panics sample_Unmarshal_def)
    (simp add: parseFloats_def TrimSpace_def rune_width_def space_runes_def sample_ParseFloat_def)

end
